theory Spec2Isabelle
  imports Main "HOL-Library.Char_ord" "HOL-Library.List_Lexorder"
begin

section \<open>Shared types\<close>

text \<open>
  \<open>ContentAddress\<close> and \<open>Timestamp\<close> are strings in the source. A JavaScript value of
  type \<open>unknown\<close> is a \<open>jsvalue\<close>: an object is the list of its own enumerable properties
  in \<open>Object.keys\<close> order (keys are pairwise distinct in a well-formed object), a number is
  represented by the text \<open>String(n)\<close> prints for it.
\<close>

type_synonym ContentAddress = string
type_synonym Timestamp = string

datatype jsvalue =
    JNull
  | JUndefined
  | JString string
  | JNumber string
  | JBoolean bool
  | JArray "jsvalue list"
  | JObject "(string \<times> jsvalue) list"

section \<open>Policy verdicts (src/policy/evaluator.ts, interfaces)\<close>

datatype EnforcementModeValue = BLOCK | ANNOTATE_mode | ESCALATE_mode | SHADOW

datatype VerdictResult = ALLOW | DENY | ESCALATE | ANNOTATE

datatype ViolationSeverity = sev_info | sev_warning | sev_error | sev_critical

record PolicyViolation =
  pv_policyId :: ContentAddress
  pv_message :: string
  pv_severity :: ViolationSeverity

record PolicyVerdictResult =
  passed :: bool
  enforcement :: EnforcementModeValue
  explanation :: string
  annotations :: "string list"
  error :: "string option"

record PolicyVerdictEntry =
  policyId :: ContentAddress
  policyName :: string
  policyVersion :: string
  verdict :: PolicyVerdictResult

record DecisionVerdict =
  dv_id :: ContentAddress
  dv_decisionId :: ContentAddress
  dv_result :: VerdictResult
  dv_scope :: string
  dv_policyResults :: "PolicyVerdictEntry list"
  dv_blockingPolicies :: "ContentAddress list"
  dv_escalatingPolicies :: "ContentAddress list"
  dv_annotations :: "string list"
  dv_violations :: "PolicyViolation list"
  dv_evaluatedAt :: Timestamp
  dv_evaluationTimeMs :: int

section \<open>Decision lifecycle (src/decision/lifecycle.ts)\<close>

datatype DecisionStateValue =
  PROPOSED | EVALUATED | COMMITTED | REJECTED | PENDING_APPROVAL | CANCELLED

fun VALID_TRANSITIONS :: "DecisionStateValue \<Rightarrow> DecisionStateValue list" where
  "VALID_TRANSITIONS PROPOSED = [EVALUATED, CANCELLED]"
| "VALID_TRANSITIONS EVALUATED = [COMMITTED, REJECTED, PENDING_APPROVAL, CANCELLED]"
| "VALID_TRANSITIONS PENDING_APPROVAL = [COMMITTED, REJECTED, CANCELLED]"
| "VALID_TRANSITIONS COMMITTED = []"
| "VALID_TRANSITIONS REJECTED = []"
| "VALID_TRANSITIONS CANCELLED = []"

record DecisionAction =
  action_type :: string
  action_parameters :: "(string \<times> jsvalue) list"
  action_targetId :: "ContentAddress option"

datatype ContextUsage = usage_input | usage_reference | usage_constraint

record DecisionContextRef =
  contextId :: ContentAddress
  usage :: ContextUsage
  relevance :: "string option"

datatype ApprovalDecision = approved | rejected

record DecisionApproval =
  da_decidedBy :: ContentAddress
  da_decision :: ApprovalDecision
  da_justification :: "string option"
  da_decidedAt :: Timestamp

record Decision =
  d_id :: ContentAddress
  d_state :: DecisionStateValue
  d_action :: DecisionAction
  d_proposedBy :: ContentAddress
  d_contextRefs :: "DecisionContextRef list"
  d_rationale :: "string option"
  d_verdict :: "DecisionVerdict option"
  d_alternativeIds :: "ContentAddress list"
  d_proposedAt :: Timestamp
  d_evaluatedAt :: "Timestamp option"
  d_concludedAt :: "Timestamp option"
  d_approval :: "DecisionApproval option"

record ProposeDecisionInput =
  in_action :: DecisionAction
  in_proposedBy :: ContentAddress
  in_contextRefs :: "DecisionContextRef list"
  in_rationale :: "string option"
  in_alternativeIds :: "ContentAddress list option"

text \<open>
  The object literal \<open>decisionData\<close> that \<open>propose\<close> hands to \<open>computeContentAddress\<close>:
  the decision without its id, in state PROPOSED.
\<close>

record DecisionData =
  dd_state :: DecisionStateValue
  dd_action :: DecisionAction
  dd_proposedBy :: ContentAddress
  dd_contextRefs :: "DecisionContextRef list"
  dd_alternativeIds :: "ContentAddress list"
  dd_proposedAt :: Timestamp
  dd_rationale :: "string option"

datatype TransactionOperation =
  op_propose | op_evaluate | op_commit | op_reject | op_approve | op_cancel

datatype TransactionStatus = txn_pending | txn_completed | txn_rolled_back | txn_failed

record DecisionTransaction =
  txn_id :: ContentAddress
  txn_decisionId :: ContentAddress
  txn_operation :: TransactionOperation
  txn_status :: TransactionStatus
  txn_startedAt :: Timestamp
  txn_completedAt :: "Timestamp option"
  txn_error :: "string option"

record DecisionStateMachine =
  decisions :: "ContentAddress \<rightharpoonup> Decision"
  transactions :: "ContentAddress \<rightharpoonup> DecisionTransaction"

text \<open>
  Every failure of the state machine is a thrown \<open>Error\<close>; the constructors keep the data
  each message is built from:
  \<^item> \<open>DecisionNotFound id\<close>: "Decision not found: id";
  \<^item> \<open>InvalidTransition from to validTargets\<close>: "Invalid state transition: from -> to.
    Valid transitions: ..." (the targets joined, or "none");
  \<^item> \<open>NotPendingApproval id\<close>: "Decision id is not pending approval";
  \<^item> \<open>TransactionNotFound id\<close>: "Transaction not found: id".
\<close>

datatype lifecycle_error =
    DecisionNotFound ContentAddress
  | InvalidTransition DecisionStateValue DecisionStateValue "DecisionStateValue list"
  | NotPendingApproval ContentAddress
  | TransactionNotFound ContentAddress

fun stateName :: "DecisionStateValue \<Rightarrow> string" where
  "stateName PROPOSED = ''PROPOSED''"
| "stateName EVALUATED = ''EVALUATED''"
| "stateName COMMITTED = ''COMMITTED''"
| "stateName REJECTED = ''REJECTED''"
| "stateName PENDING_APPROVAL = ''PENDING_APPROVAL''"
| "stateName CANCELLED = ''CANCELLED''"

text \<open>\<open>Array.prototype.join\<close> on strings.\<close>

fun join :: "string \<Rightarrow> string list \<Rightarrow> string" where
  "join sep [] = []"
| "join sep [x] = x"
| "join sep (x # y # ys) = x @ sep @ join sep (y # ys)"

text \<open>The arrow of the message is U+2192, three bytes in UTF-8.\<close>

fun errorMessage :: "lifecycle_error \<Rightarrow> string" where
  "errorMessage (DecisionNotFound i) = ''Decision not found: '' @ i"
| "errorMessage (InvalidTransition from to validTargets) =
     ''Invalid state transition: '' @ stateName from @ '' ''
       @ [CHR 0xE2, CHR 0x86, CHR 0x92] @ '' '' @ stateName to
       @ ''. Valid transitions: ''
       @ (let joined = join '', '' (map stateName validTargets)
          in if joined = [] then ''none'' else joined)"
| "errorMessage (NotPendingApproval i) = ''Decision '' @ i @ '' is not pending approval''"
| "errorMessage (TransactionNotFound i) = ''Transaction not found: '' @ i"

text \<open>
  An operation returns what the caller observes (\<open>Inl\<close> the thrown error, \<open>Inr\<close> the
  returned decision) together with the machine as the call leaves it, so that what a failed
  call does to the store is part of the model. The clock readings \<open>new Date().toISOString()\<close>
  are arguments, and so is \<open>computeContentAddress\<close> on the object an operation hashes: the
  argument \<open>cca\<close>.
\<close>

type_synonym lifecycle_result = "(lifecycle_error + Decision) \<times> DecisionStateMachine"

definition validateTransition ::
  "DecisionStateValue \<Rightarrow> DecisionStateValue \<Rightarrow> lifecycle_error + unit" where
  "validateTransition from to =
     (let validTargets = VALID_TRANSITIONS from
      in if to \<in> set validTargets then Inr ()
         else Inl (InvalidTransition from to validTargets))"

definition propose ::
  "(DecisionData \<Rightarrow> ContentAddress) \<Rightarrow> Timestamp \<Rightarrow> ProposeDecisionInput
     \<Rightarrow> DecisionStateMachine \<Rightarrow> lifecycle_result" where
  "propose cca now input m =
     (let proposedAt = now;
          decisionData = \<lparr> dd_state = PROPOSED,
                           dd_action = in_action input,
                           dd_proposedBy = in_proposedBy input,
                           dd_contextRefs = in_contextRefs input,
                           dd_alternativeIds =
                             (case in_alternativeIds input of None \<Rightarrow> [] | Some a \<Rightarrow> a),
                           dd_proposedAt = proposedAt,
                           dd_rationale = in_rationale input \<rparr>;
          i = cca decisionData;
          decision = \<lparr> d_id = i,
                       d_state = dd_state decisionData,
                       d_action = dd_action decisionData,
                       d_proposedBy = dd_proposedBy decisionData,
                       d_contextRefs = dd_contextRefs decisionData,
                       d_rationale = dd_rationale decisionData,
                       d_verdict = None,
                       d_alternativeIds = dd_alternativeIds decisionData,
                       d_proposedAt = dd_proposedAt decisionData,
                       d_evaluatedAt = None,
                       d_concludedAt = None,
                       d_approval = None \<rparr>
      in (Inr decision, m\<lparr>decisions := (decisions m)(i \<mapsto> decision)\<rparr>))"

definition evaluate ::
  "Timestamp \<Rightarrow> ContentAddress \<Rightarrow> DecisionVerdict \<Rightarrow> DecisionStateMachine
     \<Rightarrow> lifecycle_result" where
  "evaluate now decisionId v m =
     (case decisions m decisionId of
        None \<Rightarrow> (Inl (DecisionNotFound decisionId), m)
      | Some decision \<Rightarrow>
          (case validateTransition (d_state decision) EVALUATED of
             Inl e \<Rightarrow> (Inl e, m)
           | Inr _ \<Rightarrow>
               (let evaluatedAt = now;
                    nextState = (case dv_result v of
                                   ALLOW \<Rightarrow> EVALUATED
                                 | ANNOTATE \<Rightarrow> EVALUATED
                                 | DENY \<Rightarrow> REJECTED
                                 | ESCALATE \<Rightarrow> PENDING_APPROVAL);
                    updatedDecision =
                      decision\<lparr> d_state := nextState,
                                d_verdict := Some v,
                                d_evaluatedAt := Some evaluatedAt,
                                d_concludedAt := (if nextState = REJECTED then Some evaluatedAt
                                                  else d_concludedAt decision) \<rparr>
                in (Inr updatedDecision,
                    m\<lparr>decisions := (decisions m)(decisionId \<mapsto> updatedDecision)\<rparr>))))"


definition startTransaction ::
  "(ContentAddress \<times> TransactionOperation \<times> Timestamp \<Rightarrow> ContentAddress) \<Rightarrow> Timestamp
     \<Rightarrow> ContentAddress \<Rightarrow> TransactionOperation \<Rightarrow> DecisionStateMachine
     \<Rightarrow> DecisionTransaction \<times> DecisionStateMachine" where
  "startTransaction cca now decisionId operation m =
     (let startedAt = now;
          i = cca (decisionId, operation, startedAt);
          txn = \<lparr> txn_id = i, txn_decisionId = decisionId, txn_operation = operation,
                  txn_status = txn_pending, txn_startedAt = startedAt,
                  txn_completedAt = None, txn_error = None \<rparr>
      in (txn, m\<lparr>transactions := (transactions m)(i \<mapsto> txn)\<rparr>))"

definition completeTransaction ::
  "Timestamp \<Rightarrow> ContentAddress \<Rightarrow> DecisionStateMachine
     \<Rightarrow> lifecycle_error + DecisionStateMachine" where
  "completeTransaction now txnId m =
     (case transactions m txnId of
        None \<Rightarrow> Inl (TransactionNotFound txnId)
      | Some txn \<Rightarrow>
          Inr (m\<lparr>transactions := (transactions m)
                 (txnId \<mapsto> txn\<lparr>txn_status := txn_completed, txn_completedAt := Some now\<rparr>)\<rparr>))"

definition rollbackTransaction ::
  "Timestamp \<Rightarrow> ContentAddress \<Rightarrow> string \<Rightarrow> DecisionStateMachine
     \<Rightarrow> lifecycle_error + DecisionStateMachine" where
  "rollbackTransaction now txnId err m =
     (case transactions m txnId of
        None \<Rightarrow> Inl (TransactionNotFound txnId)
      | Some txn \<Rightarrow>
          Inr (m\<lparr>transactions := (transactions m)
                 (txnId \<mapsto> txn\<lparr>txn_status := txn_rolled_back, txn_completedAt := Some now,
                               txn_error := Some err\<rparr>)\<rparr>))"

text \<open>
  \<open>commit\<close> reads the clock three times: in \<open>startTransaction\<close>, for \<open>concludedAt\<close>, and
  in \<open>completeTransaction\<close> (or, in the \<open>catch\<close> block, in \<open>rollbackTransaction\<close>). The
  \<open>catch\<close> block marks the transaction and rethrows; it does not restore the decision.
\<close>

definition commit ::
  "(ContentAddress \<times> TransactionOperation \<times> Timestamp \<Rightarrow> ContentAddress)
     \<Rightarrow> Timestamp \<Rightarrow> Timestamp \<Rightarrow> Timestamp \<Rightarrow> ContentAddress
     \<Rightarrow> DecisionStateMachine \<Rightarrow> lifecycle_result" where
  "commit cca tStart tConcluded tEnd decisionId m =
     (case decisions m decisionId of
        None \<Rightarrow> (Inl (DecisionNotFound decisionId), m)
      | Some decision \<Rightarrow>
          (case validateTransition (d_state decision) COMMITTED of
             Inl e \<Rightarrow> (Inl e, m)
           | Inr _ \<Rightarrow>
               (case startTransaction cca tStart decisionId op_commit m of
                  (txn, m1) \<Rightarrow>
                    (let concludedAt = tConcluded;
                         committedDecision =
                           decision\<lparr>d_state := COMMITTED, d_concludedAt := Some concludedAt\<rparr>;
                         m2 = m1\<lparr>decisions := (decisions m1)(decisionId \<mapsto> committedDecision)\<rparr>
                     in (case completeTransaction tEnd (txn_id txn) m2 of
                           Inr m3 \<Rightarrow> (Inr committedDecision, m3)
                         | Inl e \<Rightarrow>
                             (case rollbackTransaction tEnd (txn_id txn) (errorMessage e) m2 of
                                Inr m3 \<Rightarrow> (Inl e, m3)
                              | Inl e' \<Rightarrow> (Inl e', m2)))))))"

text \<open>\<open>reason ?? decision.rationale\<close>: the reason when one is given, else the old rationale.\<close>

definition reject ::
  "Timestamp \<Rightarrow> ContentAddress \<Rightarrow> string option \<Rightarrow> DecisionStateMachine \<Rightarrow> lifecycle_result" where
  "reject now decisionId reason m =
     (case decisions m decisionId of
        None \<Rightarrow> (Inl (DecisionNotFound decisionId), m)
      | Some decision \<Rightarrow>
          (case validateTransition (d_state decision) REJECTED of
             Inl e \<Rightarrow> (Inl e, m)
           | Inr _ \<Rightarrow>
               (let concludedAt = now;
                    baseRejected = decision\<lparr>d_state := REJECTED, d_concludedAt := Some concludedAt\<rparr>;
                    newRationale = (case reason of Some r \<Rightarrow> Some r | None \<Rightarrow> d_rationale decision);
                    rejectedDecision =
                      (case newRationale of
                         Some r \<Rightarrow> baseRejected\<lparr>d_rationale := Some r\<rparr>
                       | None \<Rightarrow> baseRejected)
                in (Inr rejectedDecision,
                    m\<lparr>decisions := (decisions m)(decisionId \<mapsto> rejectedDecision)\<rparr>))))"

text \<open>\<open>approve\<close> does not consult the transition table: it has a guard of its own.\<close>

definition approve ::
  "Timestamp \<Rightarrow> ContentAddress \<Rightarrow> ContentAddress \<Rightarrow> string option \<Rightarrow> DecisionStateMachine
     \<Rightarrow> lifecycle_result" where
  "approve now decisionId approvedBy justification m =
     (case decisions m decisionId of
        None \<Rightarrow> (Inl (DecisionNotFound decisionId), m)
      | Some decision \<Rightarrow>
          (if d_state decision \<noteq> PENDING_APPROVAL
           then (Inl (NotPendingApproval decisionId), m)
           else
             (let decidedAt = now;
                  approval = \<lparr> da_decidedBy = approvedBy, da_decision = approved,
                               da_justification = justification, da_decidedAt = decidedAt \<rparr>;
                  approvedDecision = decision\<lparr>d_state := EVALUATED, d_approval := Some approval\<rparr>
              in (Inr approvedDecision,
                  m\<lparr>decisions := (decisions m)(decisionId \<mapsto> approvedDecision)\<rparr>))))"

definition cancel ::
  "Timestamp \<Rightarrow> ContentAddress \<Rightarrow> string option \<Rightarrow> DecisionStateMachine \<Rightarrow> lifecycle_result" where
  "cancel now decisionId reason m =
     (case decisions m decisionId of
        None \<Rightarrow> (Inl (DecisionNotFound decisionId), m)
      | Some decision \<Rightarrow>
          (case validateTransition (d_state decision) CANCELLED of
             Inl e \<Rightarrow> (Inl e, m)
           | Inr _ \<Rightarrow>
               (let concludedAt = now;
                    baseCancelled = decision\<lparr>d_state := CANCELLED, d_concludedAt := Some concludedAt\<rparr>;
                    newRationale = (case reason of Some r \<Rightarrow> Some r | None \<Rightarrow> d_rationale decision);
                    cancelledDecision =
                      (case newRationale of
                         Some r \<Rightarrow> baseCancelled\<lparr>d_rationale := Some r\<rparr>
                       | None \<Rightarrow> baseCancelled)
                in (Inr cancelledDecision,
                    m\<lparr>decisions := (decisions m)(decisionId \<mapsto> cancelledDecision)\<rparr>))))"

definition getDecision :: "DecisionStateMachine \<Rightarrow> ContentAddress \<Rightarrow> Decision option" where
  "getDecision m i = decisions m i"

definition createDecisionStateMachine :: DecisionStateMachine where
  "createDecisionStateMachine = \<lparr> decisions = Map.empty, transactions = Map.empty \<rparr>"

definition isTerminalState :: "DecisionStateValue \<Rightarrow> bool" where
  "isTerminalState s = (length (VALID_TRANSITIONS s) = 0)"

text \<open>\<open>decision.verdict?.result !== 'DENY'\<close> holds when there is no verdict.\<close>

definition canCommit :: "Decision \<Rightarrow> bool" where
  "canCommit decision =
     (d_state decision = EVALUATED
      \<and> (case d_verdict decision of None \<Rightarrow> True | Some v \<Rightarrow> dv_result v \<noteq> DENY))"

text \<open>
  A call of one of the transition methods, with its arguments and the clock readings it
  makes; \<open>transition\<close> dispatches it, \<open>run\<close> performs a sequence of calls one after the
  other, a failed call leaving the machine as the failure left it.
\<close>

datatype lifecycle_call =
    Evaluate ContentAddress DecisionVerdict Timestamp
  | Commit ContentAddress Timestamp Timestamp Timestamp
  | Reject ContentAddress "string option" Timestamp
  | Approve ContentAddress ContentAddress "string option" Timestamp
  | Cancel ContentAddress "string option" Timestamp

fun call_target :: "lifecycle_call \<Rightarrow> ContentAddress" where
  "call_target (Evaluate i v t) = i"
| "call_target (Commit i t1 t2 t3) = i"
| "call_target (Reject i r t) = i"
| "call_target (Approve i a j t) = i"
| "call_target (Cancel i r t) = i"

fun transition ::
  "(ContentAddress \<times> TransactionOperation \<times> Timestamp \<Rightarrow> ContentAddress)
     \<Rightarrow> lifecycle_call \<Rightarrow> DecisionStateMachine \<Rightarrow> lifecycle_result" where
  "transition cca (Evaluate i v t) m = evaluate t i v m"
| "transition cca (Commit i t1 t2 t3) m = commit cca t1 t2 t3 i m"
| "transition cca (Reject i r t) m = reject t i r m"
| "transition cca (Approve i a j t) m = approve t i a j m"
| "transition cca (Cancel i r t) m = cancel t i r m"

fun run ::
  "(ContentAddress \<times> TransactionOperation \<times> Timestamp \<Rightarrow> ContentAddress)
     \<Rightarrow> lifecycle_call list \<Rightarrow> DecisionStateMachine \<Rightarrow> DecisionStateMachine" where
  "run cca [] m = m"
| "run cca (c # cs) m = run cca cs (snd (transition cca c m))"

text \<open>
  The whole public interface: \<open>propose\<close> next to the five transitions. The machines that
  callers can build are those \<open>run_api\<close> reaches from \<open>createDecisionStateMachine\<close>.
\<close>

datatype api_call =
    Propose ProposeDecisionInput Timestamp
  | Transition lifecycle_call

fun api_step ::
  "(DecisionData \<Rightarrow> ContentAddress)
     \<Rightarrow> (ContentAddress \<times> TransactionOperation \<times> Timestamp \<Rightarrow> ContentAddress)
     \<Rightarrow> api_call \<Rightarrow> DecisionStateMachine \<Rightarrow> lifecycle_result" where
  "api_step ccaD ccaT (Propose input t) m = propose ccaD t input m"
| "api_step ccaD ccaT (Transition c) m = transition ccaT c m"

fun run_api ::
  "(DecisionData \<Rightarrow> ContentAddress)
     \<Rightarrow> (ContentAddress \<times> TransactionOperation \<times> Timestamp \<Rightarrow> ContentAddress)
     \<Rightarrow> api_call list \<Rightarrow> DecisionStateMachine \<Rightarrow> DecisionStateMachine" where
  "run_api ccaD ccaT [] m = m"
| "run_api ccaD ccaT (c # cs) m = run_api ccaD ccaT cs (snd (api_step ccaD ccaT c m))"

text \<open>The fields of a decision that \<open>propose\<close> fixes and hashes into the id.\<close>

definition decisionDataOf :: "Decision \<Rightarrow> DecisionData" where
  "decisionDataOf d =
     \<lparr> dd_state = d_state d, dd_action = d_action d, dd_proposedBy = d_proposedBy d,
       dd_contextRefs = d_contextRefs d, dd_alternativeIds = d_alternativeIds d,
       dd_proposedAt = d_proposedAt d, dd_rationale = d_rationale d \<rparr>"

definition same_identity :: "Decision \<Rightarrow> Decision \<Rightarrow> bool" where
  "same_identity d' d =
     (d_id d' = d_id d \<and> d_action d' = d_action d \<and> d_proposedBy d' = d_proposedBy d
      \<and> d_contextRefs d' = d_contextRefs d \<and> d_alternativeIds d' = d_alternativeIds d
      \<and> d_proposedAt d' = d_proposedAt d)"

subsection \<open>Fixtures, after tests/unit/decision-lifecycle.test.ts\<close>

definition createProposalInput :: ProposeDecisionInput where
  "createProposalInput =
     \<lparr> in_action = \<lparr> action_type = ''CREATE_RESOURCE'',
                      action_parameters = [(''name'', JString ''test-resource'')],
                      action_targetId = None \<rparr>,
       in_proposedBy = ''sha256:agent'',
       in_contextRefs = [],
       in_rationale = None,
       in_alternativeIds = None \<rparr>"

definition createVerdict :: "VerdictResult \<Rightarrow> ContentAddress \<Rightarrow> DecisionVerdict" where
  "createVerdict r decisionId =
     \<lparr> dv_id = ''sha256:verdict'', dv_decisionId = decisionId, dv_result = r,
       dv_scope = ''GLOBAL'', dv_policyResults = [], dv_blockingPolicies = [],
       dv_escalatingPolicies = [], dv_annotations = [], dv_violations = [],
       dv_evaluatedAt = ''2024-01-01T00:00:00.000Z'', dv_evaluationTimeMs = 1 \<rparr>"

text \<open>Stand-ins for the content addresses of the one decision and the one transaction
  of the fixtures.\<close>

definition fixtureDecisionAddress :: "DecisionData \<Rightarrow> ContentAddress" where
  "fixtureDecisionAddress dd = ''sha256:d1''"

definition fixtureTransactionAddress ::
  "ContentAddress \<times> TransactionOperation \<times> Timestamp \<Rightarrow> ContentAddress" where
  "fixtureTransactionAddress x = ''sha256:t1''"

definition machineProposed :: DecisionStateMachine where
  "machineProposed =
     snd (propose fixtureDecisionAddress ''T0'' createProposalInput createDecisionStateMachine)"

definition machineEvaluated :: DecisionStateMachine where
  "machineEvaluated =
     snd (evaluate ''T1'' ''sha256:d1'' (createVerdict ALLOW ''sha256:d1'') machineProposed)"

definition machinePending :: DecisionStateMachine where
  "machinePending =
     snd (evaluate ''T1'' ''sha256:d1'' (createVerdict ESCALATE ''sha256:d1'') machineProposed)"

definition machineCommitted :: DecisionStateMachine where
  "machineCommitted =
     snd (commit fixtureTransactionAddress ''T2'' ''T3'' ''T4'' ''sha256:d1'' machineEvaluated)"

text \<open>
  The invariant behind the guard of commit: a stored decision that is EVALUATED or
  PENDING_APPROVAL carries a verdict, and the verdict is not DENY.
\<close>

definition verdict_inv :: "DecisionStateMachine \<Rightarrow> bool" where
  "verdict_inv m =
     (\<forall>i d. decisions m i = Some d \<longrightarrow>
        (d_state d = EVALUATED \<or> d_state d = PENDING_APPROVAL) \<longrightarrow>
        (\<exists>v. d_verdict d = Some v \<and> dv_result v \<noteq> DENY))"

section \<open>Content addresses (core/identity/content-address.ts, in src/unnamed/part_011)\<close>

datatype HashAlgorithmValue = SHA256 | SHA384 | SHA512

fun algorithmName :: "HashAlgorithmValue \<Rightarrow> string" where
  "algorithmName SHA256 = ''sha256''"
| "algorithmName SHA384 = ''sha384''"
| "algorithmName SHA512 = ''sha512''"

record ContentAddressConfig =
  algorithm :: HashAlgorithmValue
  truncateLength :: "int option"

definition DEFAULT_CONFIG :: ContentAddressConfig where
  "DEFAULT_CONFIG = \<lparr> algorithm = SHA256, truncateLength = None \<rparr>"

text \<open>
  \<open>canonicalize\<close>, with \<open>JSON.stringify\<close> on strings as the argument \<open>stringify\<close>. An
  object is printed key by key in the order of \<open>Object.keys(obj).sort()\<close>, each key with
  the canonical form of \<open>obj[key]\<close> (the first entry under that key). A \<open>string\<close> here is
  a list of bytes, and \<open>sort\<close> orders keys lexicographically by byte; the default
  comparison of \<open>Array.prototype.sort\<close> orders them by UTF-16 code unit. The two orders
  agree on ASCII keys, and on all keys but those that set a character above U+FFFF against
  one in U+E000..U+FFFF; there the canonical text of the model lists the two keys the other
  way round. That the canonical form does not depend on the order of the fields holds for
  either order of the keys.
\<close>

fun canonicalize :: "(string \<Rightarrow> string) \<Rightarrow> jsvalue \<Rightarrow> string" where
  "canonicalize stringify JNull = ''null''"
| "canonicalize stringify JUndefined = ''null''"
| "canonicalize stringify (JString s) = stringify s"
| "canonicalize stringify (JNumber n) = n"
| "canonicalize stringify (JBoolean b) = (if b then ''true'' else ''false'')"
| "canonicalize stringify (JArray vs) =
     ''['' @ join '','' (map (canonicalize stringify) vs) @ '']''"
| "canonicalize stringify (JObject kvs) =
     (let keys = sort (map fst kvs);
          canonical = map (\<lambda>(k, v). (k, canonicalize stringify v)) kvs;
          pairs = map (\<lambda>key. stringify key @ '':''
                          @ (case map_of canonical key of Some c \<Rightarrow> c | None \<Rightarrow> ''null''))
                      keys
      in ''{'' @ join '','' pairs @ ''}'')"

text \<open>\<open>hash.slice(0, n)\<close>: a negative \<open>n\<close> counts from the end.\<close>

definition slice0 :: "string \<Rightarrow> int \<Rightarrow> string" where
  "slice0 s n = (if n < 0 then take (nat (int (length s) + n)) s else take (nat n) s)"

text \<open>
  \<open>computeContentAddress\<close>; \<open>digest\<close> stands for
  \<open>createHash(algorithm).update(canonical, 'utf8').digest('hex')\<close>. A \<open>truncateLength\<close> of
  0 is falsy and leaves the hash whole.
\<close>

definition computeContentAddress ::
  "(string \<Rightarrow> string) \<Rightarrow> (HashAlgorithmValue \<Rightarrow> string \<Rightarrow> string) \<Rightarrow> ContentAddressConfig
     \<Rightarrow> jsvalue \<Rightarrow> ContentAddress" where
  "computeContentAddress stringify digest config content =
     (let canonical = canonicalize stringify content;
          hash = digest (algorithm config) canonical;
          finalHash = (case truncateLength config of
                         None \<Rightarrow> hash
                       | Some n \<Rightarrow> if n \<noteq> 0 then slice0 hash n else hash)
      in algorithmName (algorithm config) @ '':'' @ finalHash)"

text \<open>
  Two values have the same logical content when they are equal up to the order of the
  fields of the objects in them, at any depth: equal values; arrays of the same length with
  the same content position by position; objects with the same set of keys and, under each
  key, the same content.
\<close>

inductive same_content :: "jsvalue \<Rightarrow> jsvalue \<Rightarrow> bool" where
  same_value: "same_content v v"
| same_array: "list_all2 same_content vs ws \<Longrightarrow> same_content (JArray vs) (JArray ws)"
| same_object:
    "\<lbrakk> distinct (map fst kvs); distinct (map fst kws);
       set (map fst kvs) = set (map fst kws);
       \<forall>k \<in> set (map fst kvs). \<exists>v w. map_of kvs k = Some v \<and> map_of kws k = Some w
                                     \<and> same_content v w \<rbrakk>
     \<Longrightarrow> same_content (JObject kvs) (JObject kws)"

subsection \<open>Fixtures, after tests/unit/content-address.test.ts\<close>

text \<open>\<open>JSON.stringify\<close> on a string that needs no escapes, and a digest that shows its
  input, so that an address displays the canonical form it was computed from.\<close>

definition fixtureStringify :: "string \<Rightarrow> string" where
  "fixtureStringify s = [CHR 0x22] @ s @ [CHR 0x22]"

definition fixtureDigest :: "HashAlgorithmValue \<Rightarrow> string \<Rightarrow> string" where
  "fixtureDigest a s = s"

definition content1 :: jsvalue where
  "content1 = JObject [(''a'', JNumber ''1''),
                       (''b'', JObject [(''x'', JString ''p''), (''y'', JNull)]),
                       (''c'', JArray [JBoolean True, JNumber ''3''])]"

definition content2 :: jsvalue where
  "content2 = JObject [(''c'', JArray [JBoolean True, JNumber ''3'']),
                       (''a'', JNumber ''1''),
                       (''b'', JObject [(''y'', JNull), (''x'', JString ''p'')])]"

section \<open>Policy schema (policy/schema.ts, in src/unnamed/part_002)\<close>

datatype RuleFormatValue = JAVASCRIPT | JSON_LOGIC | REGO | CUSTOM_format | EXPRESSION

fun formatName :: "RuleFormatValue \<Rightarrow> string" where
  "formatName JAVASCRIPT = ''javascript''"
| "formatName JSON_LOGIC = ''json-logic''"
| "formatName REGO = ''rego''"
| "formatName CUSTOM_format = ''custom''"
| "formatName EXPRESSION = ''expression''"

datatype PolicyScopeValue = GLOBAL | DECISION_TYPE | ACTOR | CONTEXT | ARTIFACT | CUSTOM_scope

datatype PolicyStatusValue = DRAFT | ACTIVE | SUSPENDED | DEPRECATED | SUPERSEDED

record PolicyScopeDefinition =
  scope_type :: PolicyScopeValue
  scope_pattern :: "string option"
  scope_targetIds :: "ContentAddress list option"

record ActivationWindow =
  activatesAt :: Timestamp
  expiresAt :: "Timestamp option"
  timezone :: "string option"

record PolicyRule =
  rule_format :: RuleFormatValue
  rule_expression :: string
  rule_explanation :: "string option"

text \<open>Of \<open>metadata\<close>, the two entries the code reads: \<open>priority\<close> and \<open>createdAt\<close>.\<close>

record PolicyMetadata =
  meta_priority :: "int option"
  meta_createdAt :: "string option"

text \<open>
  A policy. \<open>pol_id\<close> is the \<open>id\<close> that the conflict resolver reads from a policy (the
  interface of the schema does not declare it; the evaluator never reads it).
\<close>

record PolicyDefinition =
  pol_id :: ContentAddress
  pol_name :: string
  pol_description :: string
  pol_scope :: PolicyScopeDefinition
  pol_rule :: PolicyRule
  pol_enforcement :: EnforcementModeValue
  pol_version :: string
  pol_status :: PolicyStatusValue
  pol_activation :: ActivationWindow
  pol_priority :: "int option"
  pol_metadata :: "PolicyMetadata option"

record EvaluationDecision =
  ed_id :: ContentAddress
  ed_type :: string
  ed_action :: "(string \<times> jsvalue) list"

record EvaluationActor =
  ea_id :: ContentAddress
  ea_type :: string
  ea_authorities :: "string list"

record PolicyEvaluationContext =
  ctx_decision :: EvaluationDecision
  ctx_actor :: EvaluationActor
  ctx_contexts :: "(ContentAddress \<times> jsvalue) list"
  ctx_timestamp :: Timestamp
  ctx_extra :: "(string \<times> jsvalue) list option"

text \<open>
  \<open>new Date(s).getTime()\<close> is the argument \<open>getTime\<close>: the milliseconds of a timestamp,
  \<open>None\<close> for the NaN of a string that is not a date. A comparison with NaN is false.
\<close>

definition num_lt :: "int option \<Rightarrow> int option \<Rightarrow> bool" where
  "num_lt a b = (case (a, b) of (Some x, Some y) \<Rightarrow> x < y | _ \<Rightarrow> False)"

definition num_ge :: "int option \<Rightarrow> int option \<Rightarrow> bool" where
  "num_ge a b = (case (a, b) of (Some x, Some y) \<Rightarrow> x \<ge> y | _ \<Rightarrow> False)"

text \<open>\<open>if (policy.activation.expiresAt)\<close>: present and not the empty string.\<close>

definition isPolicyActive ::
  "(Timestamp \<Rightarrow> int option) \<Rightarrow> PolicyDefinition \<Rightarrow> Timestamp \<Rightarrow> bool" where
  "isPolicyActive getTime policy asOf =
     (if pol_status policy \<noteq> ACTIVE then False
      else
        (let activationTime = getTime (activatesAt (pol_activation policy));
             asOfTime = getTime asOf
         in if num_lt asOfTime activationTime then False
            else (case expiresAt (pol_activation policy) of
                    None \<Rightarrow> True
                  | Some e \<Rightarrow>
                      if e \<noteq> [] then
                        (let expiryTime = getTime e
                         in if num_ge asOfTime expiryTime then False else True)
                      else True)))"

section \<open>Policy evaluation (src/policy/evaluator.ts)\<close>

text \<open>
  A rule evaluator returns \<open>Inr\<close> the boolean its promise resolves to, or \<open>Inl\<close> the
  message the \<open>catch\<close> block of \<open>evaluatePolicy\<close> reads off whatever it threw
  (\<open>error.message\<close>, or \<open>String(error)\<close>). The registry is the map of
  \<open>createRuleEvaluatorRegistry\<close>; its \<open>evaluate\<close> throws for a format without evaluator.
\<close>

type_synonym RuleEvaluator = "string \<Rightarrow> PolicyEvaluationContext \<Rightarrow> string + bool"

type_synonym RuleEvaluatorRegistry = "RuleFormatValue \<rightharpoonup> RuleEvaluator"

definition registry_evaluate ::
  "RuleEvaluatorRegistry \<Rightarrow> RuleFormatValue \<Rightarrow> string \<Rightarrow> PolicyEvaluationContext
     \<Rightarrow> string + bool" where
  "registry_evaluate evaluators format expression context =
     (case evaluators format of
        None \<Rightarrow> Inl (''No evaluator registered for format: '' @ formatName format)
      | Some evaluator \<Rightarrow> evaluator expression context)"

definition evaluatePolicy ::
  "(Timestamp \<Rightarrow> int option) \<Rightarrow> RuleEvaluatorRegistry \<Rightarrow> PolicyDefinition
     \<Rightarrow> PolicyEvaluationContext \<Rightarrow> PolicyVerdictResult" where
  "evaluatePolicy getTime registry policy context =
     (if \<not> isPolicyActive getTime policy (ctx_timestamp context) then
        \<lparr> passed = True, enforcement = pol_enforcement policy,
          explanation = ''Policy not active at evaluation time'',
          annotations = [], error = None \<rparr>
      else
        (case registry_evaluate registry (rule_format (pol_rule policy))
                (rule_expression (pol_rule policy)) context of
           Inr p \<Rightarrow>
             if p then
               \<lparr> passed = True, enforcement = pol_enforcement policy,
                 explanation = (case rule_explanation (pol_rule policy) of
                                  Some e \<Rightarrow> e | None \<Rightarrow> ''Policy passed''),
                 annotations = [], error = None \<rparr>
             else
               \<lparr> passed = False, enforcement = pol_enforcement policy,
                 explanation = (case rule_explanation (pol_rule policy) of
                                  Some e \<Rightarrow> e
                                | None \<Rightarrow> ''Policy '' @ [CHR 0x27] @ pol_name policy
                                           @ [CHR 0x27] @ '' violated''),
                 annotations = [''POLICY_VIOLATION:'' @ pol_name policy], error = None \<rparr>
         | Inl message \<Rightarrow>
             \<lparr> passed = False, enforcement = BLOCK,
               explanation = ''Error evaluating policy: '' @ message,
               annotations = [''POLICY_ERROR:'' @ pol_name policy],
               error = Some message \<rparr>))"

text \<open>The four arrays that the loop of \<open>evaluateAll\<close> pushes to.\<close>

record EvaluationArrays =
  acc_policyResults :: "PolicyVerdictEntry list"
  acc_blockingPolicies :: "ContentAddress list"
  acc_escalatingPolicies :: "ContentAddress list"
  acc_allAnnotations :: "string list"

definition evaluateAll_body ::
  "(Timestamp \<Rightarrow> int option) \<Rightarrow> RuleEvaluatorRegistry \<Rightarrow> (PolicyDefinition \<Rightarrow> ContentAddress)
     \<Rightarrow> PolicyEvaluationContext \<Rightarrow> EvaluationArrays \<Rightarrow> PolicyDefinition \<Rightarrow> EvaluationArrays" where
  "evaluateAll_body getTime registry cca context acc policy =
     (let pid = cca policy;
          v = evaluatePolicy getTime registry policy context;
          acc1 = acc\<lparr> acc_policyResults :=
                        acc_policyResults acc
                          @ [\<lparr> policyId = pid, policyName = pol_name policy,
                                policyVersion = pol_version policy, verdict = v \<rparr>],
                      acc_allAnnotations := acc_allAnnotations acc @ annotations v \<rparr>
      in if \<not> passed v then
           (case enforcement v of
              BLOCK \<Rightarrow> acc1\<lparr>acc_blockingPolicies := acc_blockingPolicies acc1 @ [pid]\<rparr>
            | ESCALATE_mode \<Rightarrow>
                acc1\<lparr>acc_escalatingPolicies := acc_escalatingPolicies acc1 @ [pid]\<rparr>
            | _ \<Rightarrow> acc1)
         else acc1)"

fun evaluateAll_loop ::
  "(Timestamp \<Rightarrow> int option) \<Rightarrow> RuleEvaluatorRegistry \<Rightarrow> (PolicyDefinition \<Rightarrow> ContentAddress)
     \<Rightarrow> PolicyEvaluationContext \<Rightarrow> EvaluationArrays \<Rightarrow> PolicyDefinition list
     \<Rightarrow> EvaluationArrays" where
  "evaluateAll_loop getTime registry cca context acc [] = acc"
| "evaluateAll_loop getTime registry cca context acc (policy # policies) =
     evaluateAll_loop getTime registry cca context
       (evaluateAll_body getTime registry cca context acc policy) policies"

text \<open>The object literal \<open>verdictData\<close>: the verdict without its id.\<close>

record VerdictData =
  vd_decisionId :: ContentAddress
  vd_result :: VerdictResult
  vd_scope :: string
  vd_policyResults :: "PolicyVerdictEntry list"
  vd_blockingPolicies :: "ContentAddress list"
  vd_escalatingPolicies :: "ContentAddress list"
  vd_annotations :: "string list"
  vd_violations :: "PolicyViolation list"
  vd_evaluatedAt :: Timestamp
  vd_evaluationTimeMs :: int

text \<open>
  \<open>evaluateAll\<close>. \<open>startTime\<close> and \<open>endTime\<close> are the two readings of \<open>Date.now()\<close>,
  \<open>now\<close> the reading of \<open>new Date().toISOString()\<close>; \<open>ccaPolicy\<close> and \<open>ccaVerdict\<close> are
  \<open>computeContentAddress\<close> on a policy and on \<open>verdictData\<close>.
\<close>

definition evaluateAll ::
  "(Timestamp \<Rightarrow> int option) \<Rightarrow> RuleEvaluatorRegistry \<Rightarrow> (PolicyDefinition \<Rightarrow> ContentAddress)
     \<Rightarrow> (VerdictData \<Rightarrow> ContentAddress) \<Rightarrow> int \<Rightarrow> Timestamp \<Rightarrow> int
     \<Rightarrow> PolicyDefinition list \<Rightarrow> PolicyEvaluationContext \<Rightarrow> DecisionVerdict" where
  "evaluateAll getTime registry ccaPolicy ccaVerdict startTime now endTime policies context =
     (let acc = evaluateAll_loop getTime registry ccaPolicy context
                  \<lparr> acc_policyResults = [], acc_blockingPolicies = [],
                    acc_escalatingPolicies = [], acc_allAnnotations = [] \<rparr> policies;
          r = (if length (acc_blockingPolicies acc) > 0 then DENY
               else if length (acc_escalatingPolicies acc) > 0 then ESCALATE
               else if length (acc_allAnnotations acc) > 0 then ANNOTATE
               else ALLOW);
          evaluatedAt = now;
          violations =
            map (\<lambda>pr. \<lparr> pv_policyId = policyId pr,
                         pv_message = explanation (verdict pr),
                         pv_severity = (if enforcement (verdict pr) = BLOCK then sev_critical
                                        else sev_warning) \<rparr>)
                (filter (\<lambda>pr. \<not> passed (verdict pr)) (acc_policyResults acc));
          verdictData =
            \<lparr> vd_decisionId = ed_id (ctx_decision context),
              vd_result = r,
              vd_scope = ed_type (ctx_decision context),
              vd_policyResults = acc_policyResults acc,
              vd_blockingPolicies = acc_blockingPolicies acc,
              vd_escalatingPolicies = acc_escalatingPolicies acc,
              vd_annotations = acc_allAnnotations acc,
              vd_violations = violations,
              vd_evaluatedAt = evaluatedAt,
              vd_evaluationTimeMs = endTime - startTime \<rparr>
      in \<lparr> dv_id = ccaVerdict verdictData,
           dv_decisionId = vd_decisionId verdictData,
           dv_result = vd_result verdictData,
           dv_scope = vd_scope verdictData,
           dv_policyResults = vd_policyResults verdictData,
           dv_blockingPolicies = vd_blockingPolicies verdictData,
           dv_escalatingPolicies = vd_escalatingPolicies verdictData,
           dv_annotations = vd_annotations verdictData,
           dv_violations = vd_violations verdictData,
           dv_evaluatedAt = vd_evaluatedAt verdictData,
           dv_evaluationTimeMs = vd_evaluationTimeMs verdictData \<rparr>)"

text \<open>
  Names for two things the body of the loop does: the entry it pushes to \<open>policyResults\<close>
  for a policy, and the test (\<open>!verdict.passed\<close>, then the \<open>switch\<close> on
  \<open>verdict.enforcement\<close>) under which it pushes the policy id to one of the two id arrays.
\<close>

definition policyEntry ::
  "(Timestamp \<Rightarrow> int option) \<Rightarrow> RuleEvaluatorRegistry \<Rightarrow> (PolicyDefinition \<Rightarrow> ContentAddress)
     \<Rightarrow> PolicyEvaluationContext \<Rightarrow> PolicyDefinition \<Rightarrow> PolicyVerdictEntry" where
  "policyEntry getTime registry cca context policy =
     \<lparr> policyId = cca policy, policyName = pol_name policy,
       policyVersion = pol_version policy,
       verdict = evaluatePolicy getTime registry policy context \<rparr>"

definition failedWith :: "EnforcementModeValue \<Rightarrow> PolicyVerdictEntry \<Rightarrow> bool" where
  "failedWith mode pr = (\<not> passed (verdict pr) \<and> enforcement (verdict pr) = mode)"

subsection \<open>Fixtures, after tests/integration/full-workflow.test.ts\<close>

text \<open>
  A clock that knows three dates; a registry whose expression evaluator stands for the
  built-in one on the rule \<open>extra.amount < 1000\<close> with \<open>extra.amount = 5000\<close> (false) and
  whose JavaScript evaluator throws.
\<close>

definition fixtureGetTime :: "Timestamp \<Rightarrow> int option" where
  "fixtureGetTime s =
     (if s = ''2023-01-01T00:00:00.000Z'' then Some 1672531200000
      else if s = ''2024-01-01T00:00:00.000Z'' then Some 1704067200000
      else if s = ''2025-01-01T00:00:00.000Z'' then Some 1735689600000
      else None)"

definition fixtureRegistry :: RuleEvaluatorRegistry where
  "fixtureRegistry =
     [EXPRESSION \<mapsto> (\<lambda>expression context. Inr (expression \<noteq> ''extra.amount < 1000'')),
      JAVASCRIPT \<mapsto> (\<lambda>expression context. Inl ''amount is not defined'')]"

definition fixturePolicy ::
  "string \<Rightarrow> EnforcementModeValue \<Rightarrow> RuleFormatValue \<Rightarrow> Timestamp \<Rightarrow> PolicyDefinition" where
  "fixturePolicy n mode format activates =
     \<lparr> pol_id = ''sha256:'' @ n, pol_name = n, pol_description = ''fixture'',
       pol_scope = \<lparr> scope_type = GLOBAL, scope_pattern = None, scope_targetIds = None \<rparr>,
       pol_rule = \<lparr> rule_format = format, rule_expression = ''extra.amount < 1000'',
                    rule_explanation = None \<rparr>,
       pol_enforcement = mode, pol_version = ''1.0.0'', pol_status = ACTIVE,
       pol_activation = \<lparr> activatesAt = activates, expiresAt = None, timezone = None \<rparr>,
       pol_priority = None, pol_metadata = None \<rparr>"

definition fixtureContext :: PolicyEvaluationContext where
  "fixtureContext =
     \<lparr> ctx_decision = \<lparr> ed_id = ''sha256:d1'', ed_type = ''TRANSFER_FUNDS'', ed_action = [] \<rparr>,
       ctx_actor = \<lparr> ea_id = ''sha256:agent'', ea_type = ''AGENT'', ea_authorities = [] \<rparr>,
       ctx_contexts = [],
       ctx_timestamp = ''2024-01-01T00:00:00.000Z'',
       ctx_extra = Some [(''amount'', JNumber ''5000'')] \<rparr>"

section \<open>Policy conflicts (src/safety/conflict-resolver.ts)\<close>

datatype ConflictTypeValue =
  CONTRADICTION | OVERLAP | CIRCULAR | AMBIGUOUS_PRIORITY | RESOURCE_CONTENTION

datatype ResolutionStrategyValue =
  MOST_SPECIFIC | MOST_RESTRICTIVE | MOST_PERMISSIVE | PRIORITY | NEWEST
  | ESCALATE_strategy | CUSTOM_strategy

record PolicyConflict =
  pc_id :: ContentAddress
  pc_type :: ConflictTypeValue
  pc_policies :: "PolicyDefinition list"
  pc_scope :: string
  pc_description :: string
  pc_severity :: int
  pc_detectedAt :: string
  pc_triggeringAction :: "DecisionAction option"

record ResolutionResult =
  rr_resolved :: bool
  rr_strategy :: ResolutionStrategyValue
  rr_winningPolicy :: "PolicyDefinition option"
  rr_explanation :: string
  rr_recommendation :: "string option"
  rr_needsEscalation :: bool

record ResolutionRule =
  rrule_id :: string
  rrule_conflictTypes :: "ConflictTypeValue list"
  rrule_strategy :: ResolutionStrategyValue
  rrule_priority :: int
  rrule_resolver :: "(PolicyConflict \<Rightarrow> ResolutionResult) option"

text \<open>
  The two \<open>Map\<close>s of the resolver keep insertion order, which \<open>detectConflicts\<close> walks:
  they are association lists, and \<open>Map.prototype.set\<close> replaces the value of a key that is
  there, in place, and appends a new key.
\<close>

fun map_set :: "'k \<Rightarrow> 'v \<Rightarrow> ('k \<times> 'v) list \<Rightarrow> ('k \<times> 'v) list" where
  "map_set k v [] = [(k, v)]"
| "map_set k v ((k', v') # m) = (if k' = k then (k, v) # m else (k', v') # map_set k v m)"

record ConflictResolver =
  cr_policies :: "(ContentAddress \<times> PolicyDefinition) list"
  cr_rules :: "ResolutionRule list"
  cr_conflicts :: "(ContentAddress \<times> PolicyConflict) list"

definition registerPolicy :: "PolicyDefinition \<Rightarrow> ConflictResolver \<Rightarrow> ConflictResolver" where
  "registerPolicy policy r = r\<lparr>cr_policies := map_set (pol_id policy) policy (cr_policies r)\<rparr>"

text \<open>\<open>rules.sort((a, b) => b.priority - a.priority)\<close>: a stable sort, highest priority
  first.\<close>

definition registerRule :: "ResolutionRule \<Rightarrow> ConflictResolver \<Rightarrow> ConflictResolver" where
  "registerRule rule r =
     r\<lparr>cr_rules := sort_key (\<lambda>x. - rrule_priority x) (cr_rules r @ [rule])\<rparr>"

definition registerDefaultRules :: "ConflictResolver \<Rightarrow> ConflictResolver" where
  "registerDefaultRules r =
     registerRule \<lparr> rrule_id = ''default-circular'', rrule_conflictTypes = [CIRCULAR],
                    rrule_strategy = ESCALATE_strategy, rrule_priority = 100,
                    rrule_resolver = None \<rparr>
       (registerRule \<lparr> rrule_id = ''default-ambiguous'',
                       rrule_conflictTypes = [AMBIGUOUS_PRIORITY],
                       rrule_strategy = NEWEST, rrule_priority = 50, rrule_resolver = None \<rparr>
          (registerRule \<lparr> rrule_id = ''default-contradiction'',
                          rrule_conflictTypes = [CONTRADICTION],
                          rrule_strategy = MOST_RESTRICTIVE, rrule_priority = 100,
                          rrule_resolver = None \<rparr>
             (registerRule \<lparr> rrule_id = ''default-overlap'', rrule_conflictTypes = [OVERLAP],
                             rrule_strategy = MOST_SPECIFIC, rrule_priority = 100,
                             rrule_resolver = None \<rparr> r)))"

definition createConflictResolver :: ConflictResolver where
  "createConflictResolver =
     registerDefaultRules \<lparr> cr_policies = [], cr_rules = [], cr_conflicts = [] \<rparr>"

text \<open>\<open>String.prototype.split\<close> with a one-character separator.\<close>

fun splitOn :: "char \<Rightarrow> string \<Rightarrow> string list" where
  "splitOn c [] = [[]]"
| "splitOn c (x # xs) =
     (if x = c then [] # splitOn c xs
      else (case splitOn c xs of
              p # ps \<Rightarrow> (x # p) # ps
            | [] \<Rightarrow> [[x]]))"

text \<open>
  The loop of \<open>scopeMatches\<close> over the parts of the pattern, the parts of the target from
  the same index on beside it: \<open>Some b\<close> when the loop returns \<open>b\<close>, \<open>None\<close> when it runs
  to its end. A part of the target beyond its end is \<open>undefined\<close> and differs from every
  part of the pattern.
\<close>

fun scopeMatches_loop :: "string list \<Rightarrow> string list \<Rightarrow> bool option" where
  "scopeMatches_loop [] ts = None"
| "scopeMatches_loop (p # ps) ts =
     (if p = ''*'' then (if ps = [] then Some True else scopeMatches_loop ps (tl ts))
      else (case ts of
              [] \<Rightarrow> Some False
            | t # ts' \<Rightarrow> if p \<noteq> t then Some False else scopeMatches_loop ps ts'))"

definition scopeMatches :: "string \<Rightarrow> string \<Rightarrow> bool" where
  "scopeMatches pattern target =
     (if pattern = ''*'' then True
      else
        (let patternParts = splitOn CHR '':'' pattern;
             targetParts = splitOn CHR '':'' target
         in (case scopeMatches_loop patternParts targetParts of
               Some b \<Rightarrow> b
             | None \<Rightarrow> length patternParts \<le> length targetParts)))"

definition findOverlappingScope :: "PolicyDefinition \<Rightarrow> PolicyDefinition \<Rightarrow> string option" where
  "findOverlappingScope p1 p2 =
     (let scope1 = (case scope_pattern (pol_scope p1) of Some s \<Rightarrow> s | None \<Rightarrow> ''*'');
          scope2 = (case scope_pattern (pol_scope p2) of Some s \<Rightarrow> s | None \<Rightarrow> ''*'')
      in if scope_type (pol_scope p1) = GLOBAL \<or> scope_type (pol_scope p2) = GLOBAL
         then Some ''*''
         else if scope1 = scope2 then Some scope1
         else if scopeMatches scope1 scope2 then Some scope2
         else if scopeMatches scope2 scope1 then Some scope1
         else None)"

definition isContradiction :: "PolicyDefinition \<Rightarrow> PolicyDefinition \<Rightarrow> bool" where
  "isContradiction p1 p2 =
     (let restrictive = [BLOCK, ESCALATE_mode];
          permissive = [ANNOTATE_mode]
      in (pol_enforcement p1 \<in> set restrictive \<and> pol_enforcement p2 \<in> set permissive)
         \<or> (pol_enforcement p1 \<in> set permissive \<and> pol_enforcement p2 \<in> set restrictive))"

definition isOverlapConflict :: "PolicyDefinition \<Rightarrow> PolicyDefinition \<Rightarrow> bool" where
  "isOverlapConflict p1 p2 = (pol_enforcement p1 \<noteq> pol_enforcement p2)"

text \<open>\<open>policy.metadata?.priority ?? 0\<close>.\<close>

definition metadataPriority :: "PolicyDefinition \<Rightarrow> int" where
  "metadataPriority p =
     (case pol_metadata p of
        None \<Rightarrow> 0
      | Some md \<Rightarrow> (case meta_priority md of None \<Rightarrow> 0 | Some x \<Rightarrow> x))"

definition hasAmbiguousPriority :: "PolicyDefinition \<Rightarrow> PolicyDefinition \<Rightarrow> bool" where
  "hasAmbiguousPriority p1 p2 =
     (let priority1 = metadataPriority p1;
          priority2 = metadataPriority p2
      in priority1 = priority2 \<and> isOverlapConflict p1 p2)"

fun severityMap :: "ConflictTypeValue \<Rightarrow> int" where
  "severityMap CONTRADICTION = 10"
| "severityMap OVERLAP = 5"
| "severityMap CIRCULAR = 8"
| "severityMap AMBIGUOUS_PRIORITY = 3"
| "severityMap RESOURCE_CONTENTION = 4"

text \<open>
  \<open>createConflict\<close>; \<open>cca\<close> is \<open>computeContentAddress\<close> on the object
  \<open>{type, policyIds, scope}\<close>, and \<open>now\<close> the clock reading for \<open>detectedAt\<close> (one reading
  serves all conflicts of a call of \<open>detectConflicts\<close>).
\<close>

definition createConflict ::
  "(ConflictTypeValue \<times> ContentAddress list \<times> string \<Rightarrow> ContentAddress) \<Rightarrow> string
     \<Rightarrow> ConflictTypeValue \<Rightarrow> PolicyDefinition list \<Rightarrow> string \<Rightarrow> string \<Rightarrow> PolicyConflict" where
  "createConflict cca now ctype policies scope description =
     (let i = cca (ctype, map pol_id policies, scope)
      in \<lparr> pc_id = i, pc_type = ctype, pc_policies = policies, pc_scope = scope,
           pc_description = description, pc_severity = severityMap ctype,
           pc_detectedAt = now, pc_triggeringAction = None \<rparr>)"

definition quoted :: "string \<Rightarrow> string" where
  "quoted s = [CHR 0x22] @ s @ [CHR 0x22]"

text \<open>
  The body of the two nested loops of \<open>detectConflicts\<close> for one pair: what it pushes to
  \<open>conflicts\<close>. The three checks are separate \<open>if\<close> statements, not alternatives. An empty
  overlapping scope and an empty \<open>scope\<close> argument are falsy.
\<close>

definition detectConflicts_pair ::
  "(ConflictTypeValue \<times> ContentAddress list \<times> string \<Rightarrow> ContentAddress) \<Rightarrow> string
     \<Rightarrow> string option \<Rightarrow> PolicyDefinition \<times> PolicyDefinition \<Rightarrow> PolicyConflict list" where
  "detectConflicts_pair cca now scope pair =
     (case pair of (p1, p2) \<Rightarrow>
        (case findOverlappingScope p1 p2 of
           None \<Rightarrow> []
         | Some overlappingScope \<Rightarrow>
             if overlappingScope = [] then []
             else if (case scope of
                        None \<Rightarrow> False
                      | Some s \<Rightarrow> s \<noteq> [] \<and> \<not> scopeMatches overlappingScope s) then []
             else
               (if isContradiction p1 p2
                then [createConflict cca now CONTRADICTION [p1, p2] overlappingScope
                        (''Policies '' @ quoted (pol_name p1) @ '' and '' @ quoted (pol_name p2)
                           @ '' have contradictory enforcement actions'')]
                else [])
               @ (if isOverlapConflict p1 p2
                  then [createConflict cca now OVERLAP [p1, p2] overlappingScope
                          (''Policies '' @ quoted (pol_name p1) @ '' and ''
                             @ quoted (pol_name p2)
                             @ '' overlap with different enforcement levels'')]
                  else [])
               @ (if hasAmbiguousPriority p1 p2
                  then [createConflict cca now AMBIGUOUS_PRIORITY [p1, p2] overlappingScope
                          (''Policies '' @ quoted (pol_name p1) @ '' and ''
                             @ quoted (pol_name p2)
                             @ '' have the same priority in overlapping scope'')]
                  else [])))"

text \<open>The pairs \<open>(policiesArray[i], policiesArray[j])\<close> with \<open>i < j\<close>, in loop order.\<close>

fun pairs :: "'a list \<Rightarrow> ('a \<times> 'a) list" where
  "pairs [] = []"
| "pairs (x # xs) = map (Pair x) xs @ pairs xs"

definition detectConflicts ::
  "(ConflictTypeValue \<times> ContentAddress list \<times> string \<Rightarrow> ContentAddress) \<Rightarrow> string
     \<Rightarrow> string option \<Rightarrow> ConflictResolver \<Rightarrow> PolicyConflict list \<times> ConflictResolver" where
  "detectConflicts cca now scope r =
     (let policiesArray = map snd (cr_policies r);
          conflicts = concat (map (detectConflicts_pair cca now scope) (pairs policiesArray))
      in (conflicts,
          r\<lparr>cr_conflicts := foldl (\<lambda>m c. map_set (pc_id c) c m) (cr_conflicts r) conflicts\<rparr>))"

text \<open>\<open>Array.prototype.indexOf\<close>.\<close>

fun indexOf :: "'a list \<Rightarrow> 'a \<Rightarrow> int" where
  "indexOf [] x = -1"
| "indexOf (y # ys) x = (if y = x then 0 else (let i = indexOf ys x in if i < 0 then -1 else i + 1))"

text \<open>
  The winner of a strategy is the first element of a sorted copy of the policies of the
  conflict; the sort is stable. \<open>sort_key\<close> is a stable sort in ascending order of the key.
  In \<open>resolveBySpecificity\<close> the length of a pattern is its number of bytes, which is the
  \<open>.length\<close> of the source (a count of UTF-16 code units) on ASCII patterns.
\<close>

definition firstOf :: "'a list \<Rightarrow> 'a option" where
  "firstOf xs = (case xs of [] \<Rightarrow> None | x # _ \<Rightarrow> Some x)"

definition patternOf :: "PolicyDefinition \<Rightarrow> string" where
  "patternOf p = (case scope_pattern (pol_scope p) of Some s \<Rightarrow> s | None \<Rightarrow> ''*'')"

definition resolveBySpecificity :: "PolicyConflict \<Rightarrow> ResolutionResult" where
  "resolveBySpecificity conflict =
     (case firstOf (sort_key (\<lambda>p. - int (length (patternOf p))) (pc_policies conflict)) of
        None \<Rightarrow>
          \<lparr> rr_resolved = False, rr_strategy = MOST_SPECIFIC, rr_winningPolicy = None,
            rr_explanation = ''Could not determine most specific policy'',
            rr_recommendation = None, rr_needsEscalation = True \<rparr>
      | Some winner \<Rightarrow>
          \<lparr> rr_resolved = True, rr_strategy = MOST_SPECIFIC, rr_winningPolicy = Some winner,
            rr_explanation = ''Policy '' @ quoted (pol_name winner)
                               @ '' wins as the most specific'',
            rr_recommendation = None, rr_needsEscalation = False \<rparr>)"

definition resolveByRestrictiveness :: "PolicyConflict \<Rightarrow> ResolutionResult" where
  "resolveByRestrictiveness conflict =
     (let enforcementOrder = [BLOCK, ESCALATE_mode, ANNOTATE_mode, SHADOW]
      in (case firstOf (sort_key (\<lambda>p. indexOf enforcementOrder (pol_enforcement p))
                          (pc_policies conflict)) of
            None \<Rightarrow>
              \<lparr> rr_resolved = False, rr_strategy = MOST_RESTRICTIVE, rr_winningPolicy = None,
                rr_explanation = ''Could not determine most restrictive policy'',
                rr_recommendation = None, rr_needsEscalation = True \<rparr>
          | Some winner \<Rightarrow>
              \<lparr> rr_resolved = True, rr_strategy = MOST_RESTRICTIVE,
                rr_winningPolicy = Some winner,
                rr_explanation = ''Policy '' @ quoted (pol_name winner)
                                   @ '' wins as the most restrictive'',
                rr_recommendation = None, rr_needsEscalation = False \<rparr>))"

definition resolveByPermissiveness :: "PolicyConflict \<Rightarrow> ResolutionResult" where
  "resolveByPermissiveness conflict =
     (let enforcementOrder = [SHADOW, ANNOTATE_mode, ESCALATE_mode, BLOCK]
      in (case firstOf (sort_key (\<lambda>p. indexOf enforcementOrder (pol_enforcement p))
                          (pc_policies conflict)) of
            None \<Rightarrow>
              \<lparr> rr_resolved = False, rr_strategy = MOST_PERMISSIVE, rr_winningPolicy = None,
                rr_explanation = ''Could not determine most permissive policy'',
                rr_recommendation = None, rr_needsEscalation = True \<rparr>
          | Some winner \<Rightarrow>
              \<lparr> rr_resolved = True, rr_strategy = MOST_PERMISSIVE,
                rr_winningPolicy = Some winner,
                rr_explanation = ''Policy '' @ quoted (pol_name winner)
                                   @ '' wins as the most permissive'',
                rr_recommendation = None, rr_needsEscalation = False \<rparr>))"

definition resolveByPriority :: "PolicyConflict \<Rightarrow> ResolutionResult" where
  "resolveByPriority conflict =
     (case firstOf (sort_key (\<lambda>p. - metadataPriority p) (pc_policies conflict)) of
        None \<Rightarrow>
          \<lparr> rr_resolved = False, rr_strategy = PRIORITY, rr_winningPolicy = None,
            rr_explanation = ''Could not determine highest priority policy'',
            rr_recommendation = None, rr_needsEscalation = True \<rparr>
      | Some winner \<Rightarrow>
          \<lparr> rr_resolved = True, rr_strategy = PRIORITY, rr_winningPolicy = Some winner,
            rr_explanation = ''Policy '' @ quoted (pol_name winner) @ '' wins by priority'',
            rr_recommendation = None, rr_needsEscalation = False \<rparr>)"

text \<open>
  \<open>dateB.localeCompare(dateA)\<close> is taken to be the byte order of the two strings. The
  collation of the runtime agrees with it on timestamps as \<open>toISOString\<close> prints them
  (digits at fixed positions, ending in Z); it need not on other texts, for instance on
  timestamps that differ in the sign of a zone offset. A stable sort in descending order
  is the reverse of a stable ascending sort of the reversed list.
\<close>

definition metadataCreatedAt :: "PolicyDefinition \<Rightarrow> string" where
  "metadataCreatedAt p =
     (case pol_metadata p of
        None \<Rightarrow> []
      | Some md \<Rightarrow> (case meta_createdAt md of None \<Rightarrow> [] | Some s \<Rightarrow> s))"

definition resolveByNewest :: "PolicyConflict \<Rightarrow> ResolutionResult" where
  "resolveByNewest conflict =
     (case firstOf (rev (sort_key metadataCreatedAt (rev (pc_policies conflict)))) of
        None \<Rightarrow>
          \<lparr> rr_resolved = False, rr_strategy = NEWEST, rr_winningPolicy = None,
            rr_explanation = ''Could not determine newest policy'',
            rr_recommendation = None, rr_needsEscalation = True \<rparr>
      | Some winner \<Rightarrow>
          \<lparr> rr_resolved = True, rr_strategy = NEWEST, rr_winningPolicy = Some winner,
            rr_explanation = ''Policy '' @ quoted (pol_name winner) @ '' wins as the newest'',
            rr_recommendation = None, rr_needsEscalation = False \<rparr>)"

definition applyRule :: "ResolutionRule \<Rightarrow> PolicyConflict \<Rightarrow> ResolutionResult" where
  "applyRule rule conflict =
     (case (if rrule_strategy rule = CUSTOM_strategy then rrule_resolver rule else None) of
        Some resolver \<Rightarrow> resolver conflict
      | None \<Rightarrow>
          (case rrule_strategy rule of
             MOST_SPECIFIC \<Rightarrow> resolveBySpecificity conflict
           | MOST_RESTRICTIVE \<Rightarrow> resolveByRestrictiveness conflict
           | MOST_PERMISSIVE \<Rightarrow> resolveByPermissiveness conflict
           | PRIORITY \<Rightarrow> resolveByPriority conflict
           | NEWEST \<Rightarrow> resolveByNewest conflict
           | _ \<Rightarrow>
               \<lparr> rr_resolved = False, rr_strategy = ESCALATE_strategy,
                 rr_winningPolicy = None,
                 rr_explanation = ''Conflict requires human review'',
                 rr_recommendation = None, rr_needsEscalation = True \<rparr>))"

definition resolve :: "ConflictResolver \<Rightarrow> PolicyConflict \<Rightarrow> ResolutionResult" where
  "resolve r conflict =
     (case find (\<lambda>x. pc_type conflict \<in> set (rrule_conflictTypes x)) (cr_rules r) of
        None \<Rightarrow>
          \<lparr> rr_resolved = False, rr_strategy = ESCALATE_strategy, rr_winningPolicy = None,
            rr_explanation = ''No resolution rule found for this conflict type'',
            rr_recommendation = Some ''Define a resolution rule or manually resolve'',
            rr_needsEscalation = True \<rparr>
      | Some rule \<Rightarrow> applyRule rule conflict)"

subsection \<open>Fixtures: the scenario of the financial policies\<close>

definition scopedPolicy ::
  "string \<Rightarrow> EnforcementModeValue \<Rightarrow> string \<Rightarrow> PolicyDefinition" where
  "scopedPolicy n mode pattern =
     (fixturePolicy n mode EXPRESSION ''2023-01-01T00:00:00.000Z'')
       \<lparr>pol_scope := \<lparr> scope_type = DECISION_TYPE, scope_pattern = Some pattern,
                       scope_targetIds = None \<rparr>\<rparr>"

definition fixtureConflictAddress ::
  "ConflictTypeValue \<times> ContentAddress list \<times> string \<Rightarrow> ContentAddress" where
  "fixtureConflictAddress x =
     (case x of (t, ids, scope) \<Rightarrow>
        ''sha256:'' @ (case t of CONTRADICTION \<Rightarrow> ''c'' | OVERLAP \<Rightarrow> ''o''
                               | AMBIGUOUS_PRIORITY \<Rightarrow> ''a'' | _ \<Rightarrow> ''x''))"

definition financialResolver :: ConflictResolver where
  "financialResolver =
     registerPolicy (scopedPolicy ''P2'' ANNOTATE_mode ''financial:transfer'')
       (registerPolicy (scopedPolicy ''P1'' BLOCK ''financial:*'') createConflictResolver)"

section \<open>Approval queue (approval.ts, in src/unnamed/part_012)\<close>

datatype ApprovalStatusValue =
  PENDING | IN_REVIEW | APPROVED | REJECTED_status | TIMED_OUT | WITHDRAWN

datatype ApprovalPriorityValue = LOW | NORMAL | HIGH | CRITICAL

datatype RiskLevel = risk_LOW | risk_MEDIUM | risk_HIGH | risk_CRITICAL

record ApprovalContext =
  ac_summary :: string
  ac_riskLevel :: RiskLevel
  ac_impact :: string
  ac_policyExcerpts :: "string list option"
  ac_relatedDecisionIds :: "ContentAddress list option"

record ApprovalOutcome =
  ao_decision :: ApprovalDecision
  ao_decidedBy :: ContentAddress
  ao_decidedAt :: Timestamp
  ao_justification :: "string option"
  ao_conditions :: "string list option"
  ao_automated :: bool

record ApprovalRequest =
  ar_id :: ContentAddress
  ar_decisionId :: ContentAddress
  ar_status :: ApprovalStatusValue
  ar_priority :: ApprovalPriorityValue
  ar_requestedBy :: ContentAddress
  ar_reason :: string
  ar_triggeringPolicyId :: "ContentAddress option"
  ar_approvers :: "ContentAddress list"
  ar_createdAt :: Timestamp
  ar_expiresAt :: Timestamp
  ar_context :: ApprovalContext
  ar_outcome :: "ApprovalOutcome option"

record CreateApprovalRequestInput =
  cri_decisionId :: ContentAddress
  cri_requestedBy :: ContentAddress
  cri_reason :: string
  cri_priority :: "ApprovalPriorityValue option"
  cri_triggeringPolicyId :: "ContentAddress option"
  cri_approvers :: "ContentAddress list"
  cri_timeoutMs :: "int option"
  cri_context :: ApprovalContext

record RecordDecisionOptions =
  opt_justification :: "string option"
  opt_conditions :: "string list option"

record ApprovalQueue =
  requests :: "ContentAddress \<rightharpoonup> ApprovalRequest"
  byDecision :: "ContentAddress \<rightharpoonup> ContentAddress"
  byApprover :: "ContentAddress \<rightharpoonup> ContentAddress set"

text \<open>
  The errors the queue throws, with the data of their messages:
  \<^item> \<open>RequestNotFound id\<close>: "Approval request not found: id";
  \<^item> \<open>RequestNotPending id status\<close>: "Request id is not pending (status: ...)";
  \<^item> \<open>RequestCannotBeDecided id status\<close>: "Request id cannot be decided (status: ...)";
  \<^item> \<open>RequestCannotBeWithdrawn id status\<close>: "Request id cannot be withdrawn (status: ...)";
  \<^item> \<open>NotAuthorizedToReview actor\<close>: "Actor ... is not authorized to review this request";
  \<^item> \<open>NotAuthorizedToDecide actor\<close>: "Actor ... is not authorized to decide on this
    request";
  \<^item> \<open>OnlyRequesterCanWithdraw\<close>: "Only the requester can withdraw the request".
  The last three are the authorization errors.
\<close>

datatype approval_error =
    RequestNotFound ContentAddress
  | RequestNotPending ContentAddress ApprovalStatusValue
  | RequestCannotBeDecided ContentAddress ApprovalStatusValue
  | RequestCannotBeWithdrawn ContentAddress ApprovalStatusValue
  | NotAuthorizedToReview ContentAddress
  | NotAuthorizedToDecide ContentAddress
  | OnlyRequesterCanWithdraw

fun isAuthorizationError :: "approval_error \<Rightarrow> bool" where
  "isAuthorizationError (NotAuthorizedToReview a) = True"
| "isAuthorizationError (NotAuthorizedToDecide a) = True"
| "isAuthorizationError OnlyRequesterCanWithdraw = True"
| "isAuthorizationError e = False"

type_synonym approval_result = "(approval_error + ApprovalRequest) \<times> ApprovalQueue"

definition createApprovalQueue :: ApprovalQueue where
  "createApprovalQueue =
     \<lparr> requests = Map.empty, byDecision = Map.empty, byApprover = Map.empty \<rparr>"

definition defaultTimeoutMs :: int where
  "defaultTimeoutMs = 24 * 60 * 60 * 1000"

text \<open>
  \<open>createRequest\<close>: \<open>now\<close> is the reading \<open>new Date().toISOString()\<close>, \<open>isoAfter ms\<close> the
  text of \<open>new Date(Date.now() + ms).toISOString()\<close>, \<open>cca\<close> is \<open>computeContentAddress\<close> on
  \<open>{decisionId, requestedBy, reason, createdAt}\<close>.
\<close>

definition createRequest ::
  "(ContentAddress \<times> ContentAddress \<times> string \<times> Timestamp \<Rightarrow> ContentAddress) \<Rightarrow> Timestamp
     \<Rightarrow> (int \<Rightarrow> Timestamp) \<Rightarrow> CreateApprovalRequestInput \<Rightarrow> ApprovalQueue
     \<Rightarrow> ApprovalRequest \<times> ApprovalQueue" where
  "createRequest cca now isoAfter input q =
     (let createdAt = now;
          timeoutMs = (case cri_timeoutMs input of Some t \<Rightarrow> t | None \<Rightarrow> defaultTimeoutMs);
          expiresAt = isoAfter timeoutMs;
          i = cca (cri_decisionId input, cri_requestedBy input, cri_reason input, createdAt);
          request = \<lparr> ar_id = i, ar_decisionId = cri_decisionId input, ar_status = PENDING,
                      ar_priority = (case cri_priority input of Some p \<Rightarrow> p | None \<Rightarrow> NORMAL),
                      ar_requestedBy = cri_requestedBy input, ar_reason = cri_reason input,
                      ar_triggeringPolicyId = cri_triggeringPolicyId input,
                      ar_approvers = cri_approvers input, ar_createdAt = createdAt,
                      ar_expiresAt = expiresAt, ar_context = cri_context input,
                      ar_outcome = None \<rparr>
      in (request,
          q\<lparr> requests := (requests q)(i \<mapsto> request),
             byDecision := (byDecision q)(cri_decisionId input \<mapsto> i),
             byApprover :=
               foldl (\<lambda>m approverId.
                        m(approverId \<mapsto>
                            insert i (case m approverId of Some s \<Rightarrow> s | None \<Rightarrow> {})))
                     (byApprover q) (cri_approvers input) \<rparr>))"

definition getRequest :: "ApprovalQueue \<Rightarrow> ContentAddress \<Rightarrow> ApprovalRequest option" where
  "getRequest q i = requests q i"

definition startReview ::
  "ContentAddress \<Rightarrow> ContentAddress \<Rightarrow> ApprovalQueue \<Rightarrow> approval_result" where
  "startReview requestId reviewerId q =
     (case requests q requestId of
        None \<Rightarrow> (Inl (RequestNotFound requestId), q)
      | Some request \<Rightarrow>
          if ar_status request \<noteq> PENDING
          then (Inl (RequestNotPending requestId (ar_status request)), q)
          else if reviewerId \<notin> set (ar_approvers request)
          then (Inl (NotAuthorizedToReview reviewerId), q)
          else
            (let updatedRequest = request\<lparr>ar_status := IN_REVIEW\<rparr>
             in (Inr updatedRequest,
                 q\<lparr>requests := (requests q)(requestId \<mapsto> updatedRequest)\<rparr>)))"

definition recordDecision ::
  "Timestamp \<Rightarrow> ContentAddress \<Rightarrow> ApprovalDecision \<Rightarrow> ContentAddress
     \<Rightarrow> RecordDecisionOptions option \<Rightarrow> ApprovalQueue \<Rightarrow> approval_result" where
  "recordDecision now requestId decision decidedBy options q =
     (case requests q requestId of
        None \<Rightarrow> (Inl (RequestNotFound requestId), q)
      | Some request \<Rightarrow>
          if ar_status request \<noteq> PENDING \<and> ar_status request \<noteq> IN_REVIEW
          then (Inl (RequestCannotBeDecided requestId (ar_status request)), q)
          else if decidedBy \<notin> set (ar_approvers request)
          then (Inl (NotAuthorizedToDecide decidedBy), q)
          else
            (let decidedAt = now;
                 outcome = \<lparr> ao_decision = decision, ao_decidedBy = decidedBy,
                             ao_decidedAt = decidedAt,
                             ao_justification =
                               (case options of None \<Rightarrow> None | Some opt \<Rightarrow> opt_justification opt),
                             ao_conditions =
                               (case options of None \<Rightarrow> None | Some opt \<Rightarrow> opt_conditions opt),
                             ao_automated = False \<rparr>;
                 updatedRequest =
                   request\<lparr> ar_status := (if decision = approved then APPROVED
                                           else REJECTED_status),
                            ar_outcome := Some outcome \<rparr>
             in (Inr updatedRequest,
                 q\<lparr>requests := (requests q)(requestId \<mapsto> updatedRequest)\<rparr>)))"

definition withdraw ::
  "ContentAddress \<Rightarrow> ContentAddress \<Rightarrow> ApprovalQueue \<Rightarrow> approval_result" where
  "withdraw requestId withdrawnBy q =
     (case requests q requestId of
        None \<Rightarrow> (Inl (RequestNotFound requestId), q)
      | Some request \<Rightarrow>
          if ar_status request \<noteq> PENDING \<and> ar_status request \<noteq> IN_REVIEW
          then (Inl (RequestCannotBeWithdrawn requestId (ar_status request)), q)
          else if ar_requestedBy request \<noteq> withdrawnBy
          then (Inl OnlyRequesterCanWithdraw, q)
          else
            (let updatedRequest = request\<lparr>ar_status := WITHDRAWN\<rparr>
             in (Inr updatedRequest,
                 q\<lparr>requests := (requests q)(requestId \<mapsto> updatedRequest)\<rparr>)))"

subsection \<open>Fixtures: one request, decided by its approver\<close>

definition fixtureRequestInput :: CreateApprovalRequestInput where
  "fixtureRequestInput =
     \<lparr> cri_decisionId = ''sha256:d1'', cri_requestedBy = ''sha256:system'',
       cri_reason = ''Escalation: POLICY_ESCALATE'', cri_priority = None,
       cri_triggeringPolicyId = None, cri_approvers = [''sha256:supervisor''],
       cri_timeoutMs = Some 1000,
       cri_context = \<lparr> ac_summary = ''Transfer funds'', ac_riskLevel = risk_HIGH,
                        ac_impact = ''50000 USD'', ac_policyExcerpts = None,
                        ac_relatedDecisionIds = None \<rparr> \<rparr>"

definition queuePending :: ApprovalQueue where
  "queuePending =
     snd (createRequest (\<lambda>x. ''sha256:r1'') ''T0'' (\<lambda>ms. ''T9'') fixtureRequestInput
            createApprovalQueue)"

definition queueApproved :: ApprovalQueue where
  "queueApproved =
     snd (recordDecision ''T1'' ''sha256:r1'' approved ''sha256:supervisor'' None queuePending)"

section \<open>Verified properties\<close>

subsection \<open>Lifecycle: helper lemmas\<close>


lemma validate_terminal:
  "VALID_TRANSITIONS s = [] \<Longrightarrow> validateTransition s t = Inl (InvalidTransition s t [])"
  by (simp add: validateTransition_def)

lemma validate_ok:
  "t \<in> set (VALID_TRANSITIONS s) \<Longrightarrow> validateTransition s t = Inr ()"
  by (simp add: validateTransition_def)

lemma validate_fail:
  "t \<notin> set (VALID_TRANSITIONS s)
     \<Longrightarrow> validateTransition s t = Inl (InvalidTransition s t (VALID_TRANSITIONS s))"
  by (simp add: validateTransition_def)

lemma commit_target_iff:
  "COMMITTED \<in> set (VALID_TRANSITIONS s) \<longleftrightarrow> s = EVALUATED \<or> s = PENDING_APPROVAL"
  by (cases s) simp_all

text \<open>The catch block of commit is never entered: the transaction was stored just before.\<close>

lemma commit_ok:
  assumes "decisions m i = Some d" and "d_state d = EVALUATED \<or> d_state d = PENDING_APPROVAL"
  shows "fst (commit cca t1 t2 t3 i m) = Inr (d\<lparr>d_state := COMMITTED, d_concludedAt := Some t2\<rparr>)"
    and "decisions (snd (commit cca t1 t2 t3 i m))
           = (decisions m)(i \<mapsto> d\<lparr>d_state := COMMITTED, d_concludedAt := Some t2\<rparr>)"
  using assms commit_target_iff[of "d_state d"]
  by (simp_all add: commit_def validate_ok startTransaction_def completeTransaction_def Let_def)

lemma commit_fail:
  assumes "decisions m i = Some d" and "d_state d \<noteq> EVALUATED" and "d_state d \<noteq> PENDING_APPROVAL"
  shows "commit cca t1 t2 t3 i m
           = (Inl (InvalidTransition (d_state d) COMMITTED (VALID_TRANSITIONS (d_state d))), m)"
  using assms commit_target_iff[of "d_state d"]
  by (simp add: commit_def validate_fail)

lemma commit_missing:
  "decisions m i = None \<Longrightarrow> commit cca t1 t2 t3 i m = (Inl (DecisionNotFound i), m)"
  by (simp add: commit_def)

lemma commit_decisions:
  "decisions (snd (commit cca t1 t2 t3 i m)) =
     (case decisions m i of
        None \<Rightarrow> decisions m
      | Some d \<Rightarrow> if d_state d = EVALUATED \<or> d_state d = PENDING_APPROVAL
                  then (decisions m)(i \<mapsto> d\<lparr>d_state := COMMITTED, d_concludedAt := Some t2\<rparr>)
                  else decisions m)"
  by (auto split: option.splits simp: commit_ok commit_fail commit_missing)

lemma evaluate_decisions:
  "decisions (snd (evaluate t i v m)) =
     (case decisions m i of
        None \<Rightarrow> decisions m
      | Some d \<Rightarrow> if d_state d = PROPOSED
                  then (decisions m)(i \<mapsto> d\<lparr> d_state := (case dv_result v of
                                   ALLOW \<Rightarrow> EVALUATED
                                 | ANNOTATE \<Rightarrow> EVALUATED
                                 | DENY \<Rightarrow> REJECTED
                                 | ESCALATE \<Rightarrow> PENDING_APPROVAL),
                                d_verdict := Some v,
                                d_evaluatedAt := Some t,
                                d_concludedAt := (if dv_result v = DENY then Some t
                                                  else d_concludedAt d) \<rparr>)
                  else decisions m)"
proof (cases "decisions m i")
  case None then show ?thesis by (simp add: evaluate_def)
next
  case (Some d)
  then show ?thesis
    by (cases "d_state d"; cases "dv_result v")
       (simp_all add: evaluate_def validateTransition_def Let_def)
qed

lemma reject_decisions:
  "decisions (snd (reject t i r m)) =
     (case decisions m i of
        None \<Rightarrow> decisions m
      | Some d \<Rightarrow> if d_state d = EVALUATED \<or> d_state d = PENDING_APPROVAL
                  then (decisions m)(i \<mapsto> d\<lparr> d_state := REJECTED, d_concludedAt := Some t,
                         d_rationale := (case r of Some x \<Rightarrow> Some x | None \<Rightarrow> d_rationale d)\<rparr>)
                  else decisions m)"
proof (cases "decisions m i")
  case None then show ?thesis by (simp add: reject_def)
next
  case (Some d)
  then show ?thesis
    by (cases d; cases "d_state d"; cases r; cases "d_rationale d")
       (simp_all add: reject_def validateTransition_def Let_def)
qed

lemma cancel_decisions:
  "decisions (snd (cancel t i r m)) =
     (case decisions m i of
        None \<Rightarrow> decisions m
      | Some d \<Rightarrow> if d_state d = PROPOSED \<or> d_state d = EVALUATED \<or> d_state d = PENDING_APPROVAL
                  then (decisions m)(i \<mapsto> d\<lparr> d_state := CANCELLED, d_concludedAt := Some t,
                         d_rationale := (case r of Some x \<Rightarrow> Some x | None \<Rightarrow> d_rationale d)\<rparr>)
                  else decisions m)"
proof (cases "decisions m i")
  case None then show ?thesis by (simp add: cancel_def)
next
  case (Some d)
  then show ?thesis
    by (cases d; cases "d_state d"; cases r; cases "d_rationale d")
       (simp_all add: cancel_def validateTransition_def Let_def)
qed

lemma approve_decisions:
  "decisions (snd (approve t i a j m)) =
     (case decisions m i of
        None \<Rightarrow> decisions m
      | Some d \<Rightarrow> if d_state d = PENDING_APPROVAL
                  then (decisions m)(i \<mapsto> d\<lparr> d_state := EVALUATED,
                         d_approval := Some \<lparr> da_decidedBy = a, da_decision = approved,
                               da_justification = j, da_decidedAt = t \<rparr>\<rparr>)
                  else decisions m)"
  by (simp add: approve_def Let_def split: option.splits)


lemma verdict_inv_transition:
  assumes "verdict_inv m"
  shows "verdict_inv (snd (transition cca c m))"
proof (cases c)
  case (Evaluate i v t)
  show ?thesis
    using assms unfolding verdict_inv_def Evaluate
    by (cases "dv_result v") (auto simp: evaluate_decisions split: option.splits if_splits)
next
  case (Commit i t1 t2 t3)
  show ?thesis
    using assms unfolding verdict_inv_def Commit
    by (auto simp: commit_decisions split: option.splits if_splits)
next
  case (Reject i r t)
  show ?thesis
    using assms unfolding verdict_inv_def Reject
    by (auto simp: reject_decisions split: option.splits if_splits)
next
  case (Approve i a j t)
  show ?thesis
    using assms unfolding verdict_inv_def Approve
    by (auto simp: approve_decisions split: option.splits if_splits)
next
  case (Cancel i r t)
  show ?thesis
    using assms unfolding verdict_inv_def Cancel
    by (auto simp: cancel_decisions split: option.splits if_splits)
qed

lemma verdict_inv_propose:
  assumes "verdict_inv m"
  shows "verdict_inv (snd (propose cca t inp m))"
  using assms unfolding verdict_inv_def
  by (auto simp: propose_def Let_def split: if_splits)

lemma verdict_inv_api_step:
  "verdict_inv m \<Longrightarrow> verdict_inv (snd (api_step ccaD ccaT c m))"
  by (cases c) (simp_all add: verdict_inv_propose verdict_inv_transition)

lemma verdict_inv_run_api:
  "verdict_inv m \<Longrightarrow> verdict_inv (run_api ccaD ccaT cs m)"
  by (induction cs arbitrary: m) (simp_all add: verdict_inv_api_step)

lemma verdict_inv_initial: "verdict_inv createDecisionStateMachine"
  by (simp add: verdict_inv_def createDecisionStateMachine_def)

lemma enters_committed:
  assumes "decisions m i = Some d" and "d_state d \<noteq> COMMITTED"
    and "decisions (snd (api_step ccaD ccaT c m)) i = Some d'" and "d_state d' = COMMITTED"
  shows "(\<exists>t1 t2 t3. c = Transition (Commit i t1 t2 t3))
         \<and> (d_state d = EVALUATED \<or> d_state d = PENDING_APPROVAL)"
proof (cases c)
  case (Propose inp t)
  with assms show ?thesis by (auto simp: propose_def Let_def split: if_splits)
next
  case (Transition tc)
  show ?thesis
  proof (cases tc)
    case (Evaluate j v t)
    with assms Transition show ?thesis
      by (cases "dv_result v") (auto simp: evaluate_decisions split: option.splits if_splits)
  next
    case (Commit j t1 t2 t3)
    with assms Transition show ?thesis
      by (auto simp: commit_decisions split: option.splits if_splits)
  next
    case (Reject j r t)
    with assms Transition show ?thesis
      by (auto simp: reject_decisions split: option.splits if_splits)
  next
    case (Approve j a ju t)
    with assms Transition show ?thesis
      by (auto simp: approve_decisions split: option.splits if_splits)
  next
    case (Cancel j r t)
    with assms Transition show ?thesis
      by (auto simp: cancel_decisions split: option.splits if_splits)
  qed
qed

text \<open>What the guard of commit lets through: on a machine built through the
  public interface, \<open>commit\<close> on a stored decision succeeds exactly when its state is
  EVALUATED or PENDING_APPROVAL, the two rows of the transition table that list COMMITTED;
  the committed decision replaces the stored one, and the decision so committed carries a
  verdict that is not DENY. In every other state the call fails with the invalid-transition
  error and the machine is unchanged. No other call of the interface moves a decision into
  COMMITTED.\<close>

lemma commit_guard:
  assumes "m = run_api ccaD ccaT calls createDecisionStateMachine"
    and "decisions m i = Some d"
  shows "(if d_state d = EVALUATED \<or> d_state d = PENDING_APPROVAL
          then fst (commit ccaT t1 t2 t3 i m)
                 = Inr (d\<lparr>d_state := COMMITTED, d_concludedAt := Some t2\<rparr>)
               \<and> decisions (snd (commit ccaT t1 t2 t3 i m))
                 = (decisions m)(i \<mapsto> d\<lparr>d_state := COMMITTED, d_concludedAt := Some t2\<rparr>)
               \<and> (\<exists>v. d_verdict d = Some v \<and> dv_result v \<noteq> DENY)
          else commit ccaT t1 t2 t3 i m
                 = (Inl (InvalidTransition (d_state d) COMMITTED (VALID_TRANSITIONS (d_state d))), m))
       \<and> (\<forall>c d'. d_state d \<noteq> COMMITTED
                  \<and> decisions (snd (api_step ccaD ccaT c m)) i = Some d'
                  \<and> d_state d' = COMMITTED
              \<longrightarrow> (\<exists>u1 u2 u3. c = Transition (Commit i u1 u2 u3))
                  \<and> (d_state d = EVALUATED \<or> d_state d = PENDING_APPROVAL))"
proof -
  have inv: "verdict_inv m"
    using assms(1) verdict_inv_run_api[OF verdict_inv_initial] by simp
  have v: "d_state d = EVALUATED \<or> d_state d = PENDING_APPROVAL
             \<Longrightarrow> \<exists>v. d_verdict d = Some v \<and> dv_result v \<noteq> DENY"
    using inv assms(2) unfolding verdict_inv_def by blast
  have a: "d_state d = EVALUATED \<or> d_state d = PENDING_APPROVAL \<Longrightarrow>
      fst (commit ccaT t1 t2 t3 i m)
                 = Inr (d\<lparr>d_state := COMMITTED, d_concludedAt := Some t2\<rparr>)
               \<and> decisions (snd (commit ccaT t1 t2 t3 i m))
                 = (decisions m)(i \<mapsto> d\<lparr>d_state := COMMITTED, d_concludedAt := Some t2\<rparr>)"
    using commit_ok[OF assms(2)] by simp
  have b: "\<not> (d_state d = EVALUATED \<or> d_state d = PENDING_APPROVAL) \<Longrightarrow>
     commit ccaT t1 t2 t3 i m
                 = (Inl (InvalidTransition (d_state d) COMMITTED (VALID_TRANSITIONS (d_state d))), m)"
    using commit_fail[OF assms(2)] by simp
  have c: "\<forall>c d'. d_state d \<noteq> COMMITTED
                  \<and> decisions (snd (api_step ccaD ccaT c m)) i = Some d'
                  \<and> d_state d' = COMMITTED
              \<longrightarrow> (\<exists>u1 u2 u3. c = Transition (Commit i u1 u2 u3))
                  \<and> (d_state d = EVALUATED \<or> d_state d = PENDING_APPROVAL)"
    using enters_committed[OF assms(2)] by blast
  show ?thesis using v a b c by presburger
qed


lemma terminal_iff: "s \<in> {COMMITTED, REJECTED, CANCELLED} \<longleftrightarrow> VALID_TRANSITIONS s = []"
  by (cases s) simp_all

lemma machineProposed_d1:
  "decisions machineProposed ''sha256:d1'' =
     Some \<lparr> d_id = ''sha256:d1'', d_state = PROPOSED,
            d_action = in_action createProposalInput,
            d_proposedBy = ''sha256:agent'', d_contextRefs = [], d_rationale = None,
            d_verdict = None, d_alternativeIds = [], d_proposedAt = ''T0'',
            d_evaluatedAt = None, d_concludedAt = None, d_approval = None \<rparr>"
  by (simp add: machineProposed_def propose_def createProposalInput_def
        fixtureDecisionAddress_def createDecisionStateMachine_def Let_def)

lemma machineEvaluated_d1:
  "decisions machineEvaluated ''sha256:d1'' =
     Some \<lparr> d_id = ''sha256:d1'', d_state = EVALUATED,
            d_action = in_action createProposalInput,
            d_proposedBy = ''sha256:agent'', d_contextRefs = [], d_rationale = None,
            d_verdict = Some (createVerdict ALLOW ''sha256:d1''),
            d_alternativeIds = [], d_proposedAt = ''T0'',
            d_evaluatedAt = Some ''T1'', d_concludedAt = None, d_approval = None \<rparr>"
  by (simp add: machineEvaluated_def evaluate_decisions machineProposed_d1 createVerdict_def)

lemma machinePending_d1:
  "decisions machinePending ''sha256:d1'' =
     Some \<lparr> d_id = ''sha256:d1'', d_state = PENDING_APPROVAL,
            d_action = in_action createProposalInput,
            d_proposedBy = ''sha256:agent'', d_contextRefs = [], d_rationale = None,
            d_verdict = Some (createVerdict ESCALATE ''sha256:d1''),
            d_alternativeIds = [], d_proposedAt = ''T0'',
            d_evaluatedAt = Some ''T1'', d_concludedAt = None, d_approval = None \<rparr>"
  by (simp add: machinePending_def evaluate_decisions machineProposed_d1 createVerdict_def)

lemma machineCommitted_d1:
  "decisions machineCommitted ''sha256:d1'' =
     Some \<lparr> d_id = ''sha256:d1'', d_state = COMMITTED,
            d_action = in_action createProposalInput,
            d_proposedBy = ''sha256:agent'', d_contextRefs = [], d_rationale = None,
            d_verdict = Some (createVerdict ALLOW ''sha256:d1''),
            d_alternativeIds = [], d_proposedAt = ''T0'',
            d_evaluatedAt = Some ''T1'', d_concludedAt = Some ''T3'', d_approval = None \<rparr>"
  by (simp add: machineCommitted_def commit_decisions machineEvaluated_d1)

subsection \<open>Lifecycle: claims\<close>

text \<open>C6 (evaluate): from a state whose row of the transition table contains EVALUATED,
  \<open>evaluate\<close> succeeds, stores and returns the decision with the verdict and \<open>evaluatedAt\<close>
  recorded, and the new state is read off the verdict: ALLOW and ANNOTATE give EVALUATED,
  DENY gives REJECTED with \<open>concludedAt\<close> set to the evaluation time, ESCALATE gives
  PENDING_APPROVAL (where \<open>concludedAt\<close> is left as it was). Nothing else of the decision
  changes.\<close>

theorem evaluate_sets_state_from_verdict:
  assumes "decisions m decisionId = Some decision"
    and "EVALUATED \<in> set (VALID_TRANSITIONS (d_state decision))"
  shows "\<exists>d'. evaluate now decisionId v m
                 = (Inr d', m\<lparr>decisions := (decisions m)(decisionId \<mapsto> d')\<rparr>)
             \<and> d_verdict d' = Some v
             \<and> d_evaluatedAt d' = Some now
             \<and> d_state d' = (case dv_result v of
                               ALLOW \<Rightarrow> EVALUATED
                             | ANNOTATE \<Rightarrow> EVALUATED
                             | DENY \<Rightarrow> REJECTED
                             | ESCALATE \<Rightarrow> PENDING_APPROVAL)
             \<and> d_concludedAt d' = (if dv_result v = DENY then Some now
                                    else d_concludedAt decision)
             \<and> d' = decision\<lparr> d_state := d_state d', d_verdict := Some v,
                               d_evaluatedAt := Some now,
                               d_concludedAt := d_concludedAt d' \<rparr>"
  using assms
  by (cases "dv_result v") (simp_all add: evaluate_def validateTransition_def Let_def)



text \<open>At the fixture: a DENY verdict on the proposed decision is recorded and rejects it.\<close>

theorem evaluate_sets_state_from_verdict_witness:
  "map_sum errorMessage d_state
     (fst (evaluate ''T1'' ''sha256:d1'' (createVerdict DENY ''sha256:d1'') machineProposed))
     = Inr REJECTED
   \<and> map_sum errorMessage d_concludedAt
     (fst (evaluate ''T1'' ''sha256:d1'' (createVerdict DENY ''sha256:d1'') machineProposed))
     = Inr (Some ''T1'')"
  using evaluate_sets_state_from_verdict[OF machineProposed_d1, of "''T1''"
          "createVerdict DENY ''sha256:d1''"]
  by (auto simp: createVerdict_def)

text \<open>C2 (terminal states): for a stored decision in COMMITTED, REJECTED or
  CANCELLED, each of evaluate, commit, reject, cancel and approve fails and leaves the
  machine exactly as it was. The first four fail with the invalid-transition error, which
  names the current state, the requested state and the (empty) list of legal targets;
  approve fails with its own "is not pending approval" error, which names the decision id
  only.\<close>

theorem terminal_state_calls_fail:
  assumes "decisions m i = Some d"
    and "d_state d \<in> {COMMITTED, REJECTED, CANCELLED}"
  shows "evaluate t i v m = (Inl (InvalidTransition (d_state d) EVALUATED []), m)
       \<and> commit cca t1 t2 t3 i m = (Inl (InvalidTransition (d_state d) COMMITTED []), m)
       \<and> reject t i r m = (Inl (InvalidTransition (d_state d) REJECTED []), m)
       \<and> cancel t i r m = (Inl (InvalidTransition (d_state d) CANCELLED []), m)
       \<and> approve t i a j m = (Inl (NotPendingApproval i), m)"
proof -
  from assms(2) have "VALID_TRANSITIONS (d_state d) = []" by auto
  then have v: "\<And>t. validateTransition (d_state d) t = Inl (InvalidTransition (d_state d) t [])"
    by (rule validate_terminal)
  from assms(2) have np: "d_state d \<noteq> PENDING_APPROVAL" by auto
  show ?thesis
    using assms(1) v np
    by (simp add: evaluate_def commit_def reject_def cancel_def approve_def)
qed

text \<open>For approve the error is another one: on the committed fixture decision it is not an
  invalid-transition error, and its message names neither the current state nor any target
  state.\<close>

theorem approve_terminal_counterexample:
  "map_option d_state (decisions machineCommitted ''sha256:d1'') = Some COMMITTED
   \<and> approve ''T5'' ''sha256:d1'' ''sha256:approver'' None machineCommitted
       = (Inl (NotPendingApproval ''sha256:d1''), machineCommitted)
   \<and> NotPendingApproval ''sha256:d1'' \<noteq> InvalidTransition COMMITTED EVALUATED []
   \<and> errorMessage (NotPendingApproval ''sha256:d1'')
       = ''Decision sha256:d1 is not pending approval''"
  by (simp add: machineCommitted_d1 approve_def)

text \<open>At the fixture: calls on the committed decision.\<close>

theorem terminal_state_calls_fail_witness:
  "evaluate ''T5'' ''sha256:d1'' (createVerdict ALLOW ''sha256:d1'') machineCommitted
     = (Inl (InvalidTransition COMMITTED EVALUATED []), machineCommitted)
   \<and> cancel ''T5'' ''sha256:d1'' None machineCommitted
     = (Inl (InvalidTransition COMMITTED CANCELLED []), machineCommitted)
   \<and> approve ''T5'' ''sha256:d1'' ''sha256:approver'' None machineCommitted
     = (Inl (NotPendingApproval ''sha256:d1''), machineCommitted)"
  using terminal_state_calls_fail[OF machineCommitted_d1, of "''T5''"
          "createVerdict ALLOW ''sha256:d1''" fixtureTransactionAddress "''T5''" "''T5''" "''T5''"
          None "''sha256:approver''" None]
  by simp

text \<open>C1 (commit only from EVALUATED): the code at the failing input. After propose and
  evaluate with an ESCALATE verdict the decision is PENDING_APPROVAL, \<open>canCommit\<close> says it
  cannot be committed, no approval has been recorded, and \<open>commit\<close> nevertheless returns
  it in state COMMITTED.\<close>

theorem commit_from_pending_approval:
  "map_option d_state (decisions machinePending ''sha256:d1'') = Some PENDING_APPROVAL
   \<and> map_option canCommit (decisions machinePending ''sha256:d1'') = Some False
   \<and> map_sum errorMessage d_state
        (fst (commit fixtureTransactionAddress ''T2'' ''T3'' ''T4'' ''sha256:d1'' machinePending))
       = Inr COMMITTED"
  by (simp add: machinePending_d1 canCommit_def commit_ok)

lemma machineEvaluated_run:
  "machineEvaluated =
     run_api fixtureDecisionAddress fixtureTransactionAddress
       [Propose createProposalInput ''T0'',
        Transition (Evaluate ''sha256:d1'' (createVerdict ALLOW ''sha256:d1'') ''T1'')]
       createDecisionStateMachine"
  by (simp add: machineEvaluated_def machineProposed_def)

text \<open>The guard of commit at the fixture: propose, evaluate with ALLOW, commit.\<close>

lemma commit_guard_at_fixture:
  "map_sum errorMessage d_state
     (fst (commit fixtureTransactionAddress ''T2'' ''T3'' ''T4'' ''sha256:d1'' machineEvaluated))
     = Inr COMMITTED
   \<and> map_option (map_option dv_result \<circ> d_verdict) (decisions machineEvaluated ''sha256:d1'')
     = Some (Some ALLOW)"
  using commit_guard[OF machineEvaluated_run machineEvaluated_d1, of "''T2''" "''T3''" "''T4''"]
  by (simp add: machineEvaluated_d1 createVerdict_def)

lemma same_identity_refl: "same_identity d d"
  by (simp add: same_identity_def)

lemma transition_frame:
  assumes "decisions m i = Some d"
  shows "\<exists>d'. decisions (snd (transition cca c m)) i = Some d' \<and> same_identity d' d
              \<and> (d' = d \<or> d_state d' \<noteq> PROPOSED)"
proof (cases c)
  case (Evaluate j v t)
  with assms show ?thesis
    by (cases "dv_result v")
       (auto simp: evaluate_decisions same_identity_def split: option.splits)
next
  case (Commit j t1 t2 t3)
  with assms show ?thesis
    by (auto simp: commit_decisions same_identity_def split: option.splits)
next
  case (Reject j r t)
  with assms show ?thesis
    by (auto simp: reject_decisions same_identity_def split: option.splits)
next
  case (Approve j a ju t)
  with assms show ?thesis
    by (auto simp: approve_decisions same_identity_def split: option.splits)
next
  case (Cancel j r t)
  with assms show ?thesis
    by (auto simp: cancel_decisions same_identity_def split: option.splits)
qed

lemma run_frame:
  assumes "decisions m i = Some d"
  shows "\<exists>d'. decisions (run cca cs m) i = Some d' \<and> same_identity d' d
              \<and> (d' = d \<or> d_state d' \<noteq> PROPOSED)"
  using assms
proof (induction cs arbitrary: m d)
  case Nil
  then show ?case by (simp add: same_identity_refl)
next
  case (Cons c cs)
  from transition_frame[OF Cons.prems, of cca c]
  obtain d1 where d1: "decisions (snd (transition cca c m)) i = Some d1"
    "same_identity d1 d" "d1 = d \<or> d_state d1 \<noteq> PROPOSED" by blast
  from Cons.IH[OF d1(1)]
  obtain d' where d': "decisions (run cca cs (snd (transition cca c m))) i = Some d'"
    "same_identity d' d1" "d' = d1 \<or> d_state d' \<noteq> PROPOSED" by blast
  from d1 d' show ?case by (auto simp: same_identity_def)
qed

lemma transition_success_stored:
  assumes "transition cca c m = (Inr d', m')"
  shows "decisions m' (call_target c) = Some d'
         \<and> (\<exists>d. decisions m (call_target c) = Some d \<and> same_identity d' d \<and> d_state d' \<noteq> PROPOSED)"
proof (cases "decisions m (call_target c)")
  case None
  with assms show ?thesis
    by (cases c)
       (auto simp: evaluate_def commit_def reject_def approve_def cancel_def)
next
  case (Some d)
  have st: "decisions (snd (transition cca c m)) = decisions m'" using assms by simp
  show ?thesis
  proof (cases c)
    case (Evaluate j v t)
    with assms Some show ?thesis
      by (cases "dv_result v"; cases "d_state d")
         (auto simp: evaluate_def validateTransition_def Let_def same_identity_def)
  next
    case (Commit j t1 t2 t3)
    show ?thesis
    proof (cases "d_state d = EVALUATED \<or> d_state d = PENDING_APPROVAL")
      case True
      with commit_ok[of m j d cca t1 t2 t3] assms Some Commit show ?thesis
        by (auto simp: same_identity_def)
    next
      case False
      with commit_fail[of m j d cca t1 t2 t3] assms Some Commit show ?thesis by auto
    qed
  next
    case (Reject j r t)
    with assms Some show ?thesis
      by (cases "d_state d"; cases r; cases "d_rationale d")
         (auto simp: reject_def validateTransition_def Let_def same_identity_def)
  next
    case (Approve j a ju t)
    with assms Some show ?thesis
      by (auto simp: approve_def Let_def same_identity_def split: if_splits)
  next
    case (Cancel j r t)
    with assms Some show ?thesis
      by (cases "d_state d"; cases r; cases "d_rationale d")
         (auto simp: cancel_def validateTransition_def Let_def same_identity_def)
  qed
qed

text \<open>C10 (identity is fixed by propose): \<open>propose\<close> stores the new decision, in state
  PROPOSED, under the address of its content, and that is the only place where an address
  of a decision is computed. After any sequence of transition calls (on any ids, failing or
  not) the decision is still retrievable under that id, with id, action, proposedBy,
  contextRefs, alternativeIds and proposedAt as proposed; it is either untouched or its
  hashed content has changed. Every single successful transition on it returns and stores a
  decision with the same six fields, whose content differs from the proposed content; so
  the id is no longer the address of what is stored under it, as far as addresses tell
  contents apart (\<open>inj ccaD\<close>; a digest can collide).\<close>

theorem transitions_keep_identity:
  assumes "propose ccaD t0 input m0 = (r, m)"
  shows "\<exists>d. r = Inr d
            \<and> d_state d = PROPOSED
            \<and> d_id d = ccaD (decisionDataOf d)
            \<and> getDecision m (d_id d) = Some d
            \<and> (\<forall>cs. \<exists>d'. getDecision (run ccaT cs m) (d_id d) = Some d'
                        \<and> same_identity d' d
                        \<and> (d' = d \<or> decisionDataOf d' \<noteq> decisionDataOf d
                                     \<and> (inj ccaD \<longrightarrow> ccaD (decisionDataOf d') \<noteq> d_id d')))
            \<and> (\<forall>cs c d' m'. transition ccaT c (run ccaT cs m) = (Inr d', m')
                              \<and> call_target c = d_id d
                  \<longrightarrow> getDecision m' (d_id d) = Some d' \<and> same_identity d' d
                      \<and> decisionDataOf d' \<noteq> decisionDataOf d
                      \<and> (inj ccaD \<longrightarrow> ccaD (decisionDataOf d') \<noteq> d_id d'))"
proof -
  obtain d where r: "r = Inr d" and m: "decisions m (d_id d) = Some d"
    and st: "d_state d = PROPOSED" and idd: "d_id d = ccaD (decisionDataOf d)"
    using assms by (auto simp: propose_def Let_def decisionDataOf_def)
  have diff: "decisionDataOf d' \<noteq> decisionDataOf d
              \<and> (inj ccaD \<longrightarrow> ccaD (decisionDataOf d') \<noteq> d_id d')"
    if "d_state d' \<noteq> PROPOSED" "same_identity d' d" for d'
  proof -
    have ne: "decisionDataOf d' \<noteq> decisionDataOf d"
      using st that(1) by (auto simp: decisionDataOf_def)
    have "d_id d' = ccaD (decisionDataOf d)"
      using that(2) idd by (simp add: same_identity_def)
    with ne show ?thesis by (auto dest: injD)
  qed
  have seq: "\<forall>cs. \<exists>d'. getDecision (run ccaT cs m) (d_id d) = Some d'
                        \<and> same_identity d' d
                        \<and> (d' = d \<or> decisionDataOf d' \<noteq> decisionDataOf d
                                     \<and> (inj ccaD \<longrightarrow> ccaD (decisionDataOf d') \<noteq> d_id d'))"
    using run_frame[OF m, of ccaT] diff unfolding getDecision_def by blast
  have one: "\<forall>cs c d' m'. transition ccaT c (run ccaT cs m) = (Inr d', m')
                              \<and> call_target c = d_id d
                  \<longrightarrow> getDecision m' (d_id d) = Some d' \<and> same_identity d' d
                      \<and> decisionDataOf d' \<noteq> decisionDataOf d
                      \<and> (inj ccaD \<longrightarrow> ccaD (decisionDataOf d') \<noteq> d_id d')"
  proof (intro allI impI)
    fix cs c d' m'
    assume a: "transition ccaT c (run ccaT cs m) = (Inr d', m') \<and> call_target c = d_id d"
    from run_frame[OF m, of ccaT cs] obtain d1 where
      d1: "decisions (run ccaT cs m) (d_id d) = Some d1" "same_identity d1 d" by blast
    from transition_success_stored[of ccaT c "run ccaT cs m" d' m'] a d1
    have s: "decisions m' (d_id d) = Some d'" "same_identity d' d1" "d_state d' \<noteq> PROPOSED"
      by auto
    from s(2) d1(2) have sd: "same_identity d' d" by (simp add: same_identity_def)
    from diff[OF s(3) sd] s(1) sd
    show "getDecision m' (d_id d) = Some d' \<and> same_identity d' d
                      \<and> decisionDataOf d' \<noteq> decisionDataOf d
                      \<and> (inj ccaD \<longrightarrow> ccaD (decisionDataOf d') \<noteq> d_id d')"
      by (simp add: getDecision_def)
  qed
  from r m st idd seq one show ?thesis unfolding getDecision_def by blast
qed

text \<open>At the fixture: propose, evaluate, commit; the id and proposedAt are those of the
  proposal.\<close>

theorem transitions_keep_identity_witness:
  "map_option d_id (getDecision machineCommitted ''sha256:d1'') = Some ''sha256:d1''
   \<and> map_option d_proposedAt (getDecision machineCommitted ''sha256:d1'') = Some ''T0''
   \<and> map_option d_state (getDecision machineCommitted ''sha256:d1'') = Some COMMITTED"
proof -
  let ?r = "fst (propose fixtureDecisionAddress ''T0'' createProposalInput
                   createDecisionStateMachine)"
  let ?cs = "[Evaluate ''sha256:d1'' (createVerdict ALLOW ''sha256:d1'') ''T1'',
              Commit ''sha256:d1'' ''T2'' ''T3'' ''T4'']"
  have p: "propose fixtureDecisionAddress ''T0'' createProposalInput createDecisionStateMachine
             = (?r, machineProposed)"
    by (simp add: machineProposed_def)
  have run: "run fixtureTransactionAddress ?cs machineProposed = machineCommitted"
    by (simp add: machineCommitted_def machineEvaluated_def)
  from transitions_keep_identity[OF p, of fixtureTransactionAddress]
  obtain d where d: "?r = Inr d"
    and all: "\<forall>cs. \<exists>d'. getDecision (run fixtureTransactionAddress cs machineProposed) (d_id d)
                           = Some d' \<and> same_identity d' d"
    by blast
  from d have i: "d_id d = ''sha256:d1''" "d_proposedAt d = ''T0''"
    by (auto simp: propose_def Let_def fixtureDecisionAddress_def)
  from all obtain d' where
    "getDecision (run fixtureTransactionAddress ?cs machineProposed) (d_id d) = Some d'"
    "same_identity d' d"
    by blast
  with i run have "getDecision machineCommitted ''sha256:d1'' = Some d'"
    "d_id d' = ''sha256:d1''" "d_proposedAt d' = ''T0''"
    by (simp_all add: same_identity_def)
  then show ?thesis
    by (auto simp: getDecision_def machineCommitted_d1)
qed

subsection \<open>Content addresses\<close>

lemma sort_keys_eq:
  fixes xs ys :: "string list"
  assumes "distinct xs" "distinct ys" "set xs = set ys"
  shows "sort xs = sort ys"
  by (rule sorted_distinct_set_unique) (simp_all add: assms)

lemma map_of_canonical:
  "map_of (map (\<lambda>(k, v). (k, f v)) kvs) key = map_option f (map_of kvs key)"
  by (induction kvs) auto

lemma canonicalize_same_content:
  "same_content a b \<Longrightarrow> canonicalize q a = canonicalize q b"
proof (induction rule: same_content.induct)
  case (same_value v)
  show ?case by simp
next
  case (same_array vs ws)
  then have "map (canonicalize q) vs = map (canonicalize q) ws"
    by (induction vs ws rule: list_all2_induct) simp_all
  then show ?case by simp
next
  case (same_object kvs kws)
  have keys: "sort (map fst kvs) = sort (map fst kws)"
    using same_object(1,2,3) by (rule sort_keys_eq)
  have eq: "map (\<lambda>key. q key @ '':''
                @ (case map_of (map (\<lambda>(k, v). (k, canonicalize q v)) kvs) key of
                     Some c \<Rightarrow> c | None \<Rightarrow> ''null''))
            (sort (map fst kvs))
      = map (\<lambda>key. q key @ '':''
                @ (case map_of (map (\<lambda>(k, v). (k, canonicalize q v)) kws) key of
                     Some c \<Rightarrow> c | None \<Rightarrow> ''null''))
            (sort (map fst kvs))"
  proof (rule map_cong[OF refl])
    fix key assume "key \<in> set (sort (map fst kvs))"
    then have "key \<in> set (map fst kvs)" by simp
    with same_object(4) obtain v w where
      "map_of kvs key = Some v" "map_of kws key = Some w"
      "canonicalize q v = canonicalize q w" by blast
    then show "q key @ '':''
                @ (case map_of (map (\<lambda>(k, v). (k, canonicalize q v)) kvs) key of
                     Some c \<Rightarrow> c | None \<Rightarrow> ''null'')
             = q key @ '':''
                @ (case map_of (map (\<lambda>(k, v). (k, canonicalize q v)) kws) key of
                     Some c \<Rightarrow> c | None \<Rightarrow> ''null'')"
      by (simp add: map_of_canonical)
  qed
  show ?case by (simp only: canonicalize.simps Let_def keys[symmetric] eq)
qed

lemma content1_content2: "same_content content1 content2"
proof -
  have inner: "same_content (JObject [(''x'', JString ''p''), (''y'', JNull)])
                            (JObject [(''y'', JNull), (''x'', JString ''p'')])"
    by (rule same_object) (auto intro: same_value)
  show ?thesis
    unfolding content1_def content2_def
    by (rule same_object) (auto intro: same_value inner)
qed

text \<open>C9 (content addresses ignore key order): values with the same logical content,
  that is, equal up to the order of object fields at any depth, get the same address, for
  every configuration, every \<open>JSON.stringify\<close> and every digest. A value has the same
  content as itself, so two calls on one value agree; the address is a function of the
  value alone (no clock, no counter, no randomness enters \<open>canonicalize\<close> or
  \<open>computeContentAddress\<close>).\<close>

theorem content_address_order_independent:
  assumes "same_content a b"
  shows "computeContentAddress stringify digest config a
           = computeContentAddress stringify digest config b"
  using canonicalize_same_content[OF assms, of stringify]
  by (simp add: computeContentAddress_def)

text \<open>At the fixture: two objects with permuted fields, one of them nested.\<close>

theorem content_address_order_independent_witness:
  "computeContentAddress fixtureStringify fixtureDigest DEFAULT_CONFIG content1
     = computeContentAddress fixtureStringify fixtureDigest DEFAULT_CONFIG content2
   \<and> content1 \<noteq> content2
   \<and> computeContentAddress fixtureStringify fixtureDigest DEFAULT_CONFIG content2
     = ''sha256:{'' @ [CHR 0x22] @ ''a'' @ [CHR 0x22] @ '':1,''
         @ [CHR 0x22] @ ''b'' @ [CHR 0x22] @ '':{''
         @ [CHR 0x22] @ ''x'' @ [CHR 0x22] @ '':'' @ [CHR 0x22] @ ''p'' @ [CHR 0x22] @ '',''
         @ [CHR 0x22] @ ''y'' @ [CHR 0x22] @ '':null},''
         @ [CHR 0x22] @ ''c'' @ [CHR 0x22] @ '':[true,3]}''"
  using content_address_order_independent[OF content1_content2,
          of fixtureStringify fixtureDigest DEFAULT_CONFIG]
  by (simp add: content1_def content2_def computeContentAddress_def DEFAULT_CONFIG_def
        fixtureStringify_def fixtureDigest_def)

subsection \<open>Policy evaluation\<close>

lemma evaluateAll_body_eq:
  "evaluateAll_body getTime registry cca context acc policy =
     (let e = policyEntry getTime registry cca context policy
      in \<lparr> acc_policyResults = acc_policyResults acc @ [e],
           acc_blockingPolicies =
             acc_blockingPolicies acc @ map policyId (filter (failedWith BLOCK) [e]),
           acc_escalatingPolicies =
             acc_escalatingPolicies acc @ map policyId (filter (failedWith ESCALATE_mode) [e]),
           acc_allAnnotations = acc_allAnnotations acc @ annotations (verdict e) \<rparr>)"
  by (cases "enforcement (evaluatePolicy getTime registry policy context)")
     (simp_all add: evaluateAll_body_def policyEntry_def failedWith_def Let_def)

lemma evaluateAll_loop_eq:
  "evaluateAll_loop getTime registry cca context acc policies =
     (let es = map (policyEntry getTime registry cca context) policies
      in \<lparr> acc_policyResults = acc_policyResults acc @ es,
           acc_blockingPolicies =
             acc_blockingPolicies acc @ map policyId (filter (failedWith BLOCK) es),
           acc_escalatingPolicies =
             acc_escalatingPolicies acc @ map policyId (filter (failedWith ESCALATE_mode) es),
           acc_allAnnotations =
             acc_allAnnotations acc @ concat (map (\<lambda>e. annotations (verdict e)) es) \<rparr>)"
proof (induction policies arbitrary: acc)
  case Nil
  show ?case by simp
next
  case (Cons p ps)
  show ?case
    by (simp add: Cons.IH evaluateAll_body_eq Let_def)
qed

lemma filter_nonempty_iff: "length (map f (filter P xs)) > 0 \<longleftrightarrow> (\<exists>x \<in> set xs. P x)"
  by (induction xs) auto

lemma evaluateAll_aggregates_aux:
  assumes "v = evaluateAll getTime registry ccaPolicy ccaVerdict startTime now endTime
                 policies context"
  shows "dv_policyResults v = map (policyEntry getTime registry ccaPolicy context) policies
       \<and> dv_blockingPolicies v
           = map policyId (filter (failedWith BLOCK) (dv_policyResults v))
       \<and> dv_escalatingPolicies v
           = map policyId (filter (failedWith ESCALATE_mode) (dv_policyResults v))
       \<and> dv_annotations v = concat (map (\<lambda>e. annotations (verdict e)) (dv_policyResults v))
       \<and> dv_result v =
           (if \<exists>pr \<in> set (dv_policyResults v). failedWith BLOCK pr then DENY
            else if \<exists>pr \<in> set (dv_policyResults v). failedWith ESCALATE_mode pr then ESCALATE
            else if dv_annotations v \<noteq> [] then ANNOTATE
            else ALLOW)"
proof -
  let ?es = "map (policyEntry getTime registry ccaPolicy context) policies"
  let ?acc = "evaluateAll_loop getTime registry ccaPolicy context
                \<lparr> acc_policyResults = [], acc_blockingPolicies = [],
                  acc_escalatingPolicies = [], acc_allAnnotations = [] \<rparr> policies"
  have acc: "?acc = \<lparr> acc_policyResults = ?es,
                     acc_blockingPolicies = map policyId (filter (failedWith BLOCK) ?es),
                     acc_escalatingPolicies =
                       map policyId (filter (failedWith ESCALATE_mode) ?es),
                     acc_allAnnotations = concat (map (\<lambda>e. annotations (verdict e)) ?es) \<rparr>"
    by (simp only: evaluateAll_loop_eq Let_def EvaluationArrays.simps append_Nil)
  have res: "dv_policyResults v = ?es"
    and blk: "dv_blockingPolicies v = map policyId (filter (failedWith BLOCK) ?es)"
    and esc: "dv_escalatingPolicies v = map policyId (filter (failedWith ESCALATE_mode) ?es)"
    and ann: "dv_annotations v = concat (map (\<lambda>e. annotations (verdict e)) ?es)"
    and r: "dv_result v =
              (if length (map policyId (filter (failedWith BLOCK) ?es)) > 0 then DENY
               else if length (map policyId (filter (failedWith ESCALATE_mode) ?es)) > 0
                    then ESCALATE
               else if length (concat (map (\<lambda>e. annotations (verdict e)) ?es)) > 0
                    then ANNOTATE
               else ALLOW)"
    unfolding assms evaluateAll_def acc Let_def by simp_all
  have r': "dv_result v =
           (if \<exists>pr \<in> set ?es. failedWith BLOCK pr then DENY
            else if \<exists>pr \<in> set ?es. failedWith ESCALATE_mode pr then ESCALATE
            else if concat (map (\<lambda>e. annotations (verdict e)) ?es) \<noteq> [] then ANNOTATE
            else ALLOW)"
    unfolding r by (simp add: filter_empty_conv)
  show ?thesis
    unfolding res blk esc ann r' by simp
qed

text \<open>C3 (evaluateAll): the verdict lists one result per input policy, in input order,
  each holding the address, name and version of its policy and what \<open>evaluatePolicy\<close>
  returns for it (no policy is skipped, whatever the earlier ones gave);
  \<open>blockingPolicies\<close> and \<open>escalatingPolicies\<close> are the ids of exactly the failed results
  with enforcement BLOCK and ESCALATE, in order; the annotations are those of all results;
  and the overall result is DENY if some failed result has enforcement BLOCK, else ESCALATE
  if some failed result has enforcement ESCALATE, else ANNOTATE if there is an annotation,
  else ALLOW.\<close>

theorem evaluateAll_aggregates:
  assumes "v = evaluateAll getTime registry ccaPolicy ccaVerdict startTime now endTime
                 policies context"
  shows "dv_policyResults v
           = map (\<lambda>p. \<lparr> policyId = ccaPolicy p, policyName = pol_name p,
                         policyVersion = pol_version p,
                         verdict = evaluatePolicy getTime registry p context \<rparr>) policies
       \<and> dv_blockingPolicies v
           = map policyId (filter (\<lambda>pr. \<not> passed (verdict pr)
                                          \<and> enforcement (verdict pr) = BLOCK)
                             (dv_policyResults v))
       \<and> dv_escalatingPolicies v
           = map policyId (filter (\<lambda>pr. \<not> passed (verdict pr)
                                          \<and> enforcement (verdict pr) = ESCALATE_mode)
                             (dv_policyResults v))
       \<and> dv_annotations v = concat (map (\<lambda>pr. annotations (verdict pr)) (dv_policyResults v))
       \<and> dv_result v =
           (if \<exists>pr \<in> set (dv_policyResults v).
                 \<not> passed (verdict pr) \<and> enforcement (verdict pr) = BLOCK then DENY
            else if \<exists>pr \<in> set (dv_policyResults v).
                 \<not> passed (verdict pr) \<and> enforcement (verdict pr) = ESCALATE_mode
                 then ESCALATE
            else if dv_annotations v \<noteq> [] then ANNOTATE
            else ALLOW)"
  using evaluateAll_aggregates_aux[OF assms]
  unfolding failedWith_def[abs_def] policyEntry_def[abs_def] .

lemma fixture_active:
  "isPolicyActive fixtureGetTime (fixturePolicy n mode format ''2023-01-01T00:00:00.000Z'')
     (ctx_timestamp fixtureContext)"
  by (simp add: isPolicyActive_def fixturePolicy_def fixtureContext_def fixtureGetTime_def
        num_lt_def)

text \<open>At the fixture: a passing ANNOTATE policy, a failing BLOCK policy and a failing
  ESCALATE policy, in this order, give DENY with all three results listed.\<close>

theorem evaluateAll_aggregates_witness:
  "dv_result (evaluateAll fixtureGetTime fixtureRegistry pol_id (\<lambda>vd. ''sha256:v1'') 10
       ''2024-01-01T00:00:00.000Z'' 12
       [(fixturePolicy ''p1'' ANNOTATE_mode EXPRESSION ''2023-01-01T00:00:00.000Z'')
          \<lparr>pol_rule := \<lparr> rule_format = EXPRESSION, rule_expression = ''true'',
                        rule_explanation = None \<rparr>\<rparr>,
        fixturePolicy ''p2'' BLOCK EXPRESSION ''2023-01-01T00:00:00.000Z'',
        fixturePolicy ''p3'' ESCALATE_mode EXPRESSION ''2023-01-01T00:00:00.000Z'']
       fixtureContext) = DENY
   \<and> map policyId (dv_policyResults (evaluateAll fixtureGetTime fixtureRegistry pol_id
       (\<lambda>vd. ''sha256:v1'') 10 ''2024-01-01T00:00:00.000Z'' 12
       [(fixturePolicy ''p1'' ANNOTATE_mode EXPRESSION ''2023-01-01T00:00:00.000Z'')
          \<lparr>pol_rule := \<lparr> rule_format = EXPRESSION, rule_expression = ''true'',
                        rule_explanation = None \<rparr>\<rparr>,
        fixturePolicy ''p2'' BLOCK EXPRESSION ''2023-01-01T00:00:00.000Z'',
        fixturePolicy ''p3'' ESCALATE_mode EXPRESSION ''2023-01-01T00:00:00.000Z'']
       fixtureContext)) = [''sha256:p1'', ''sha256:p2'', ''sha256:p3'']
   \<and> dv_blockingPolicies (evaluateAll fixtureGetTime fixtureRegistry pol_id
       (\<lambda>vd. ''sha256:v1'') 10 ''2024-01-01T00:00:00.000Z'' 12
       [(fixturePolicy ''p1'' ANNOTATE_mode EXPRESSION ''2023-01-01T00:00:00.000Z'')
          \<lparr>pol_rule := \<lparr> rule_format = EXPRESSION, rule_expression = ''true'',
                        rule_explanation = None \<rparr>\<rparr>,
        fixturePolicy ''p2'' BLOCK EXPRESSION ''2023-01-01T00:00:00.000Z'',
        fixturePolicy ''p3'' ESCALATE_mode EXPRESSION ''2023-01-01T00:00:00.000Z'']
       fixtureContext) = [''sha256:p2'']"
  using evaluateAll_aggregates[OF refl, of fixtureGetTime fixtureRegistry pol_id
          "\<lambda>vd. ''sha256:v1''" 10 "''2024-01-01T00:00:00.000Z''" 12
          "[(fixturePolicy ''p1'' ANNOTATE_mode EXPRESSION ''2023-01-01T00:00:00.000Z'')
              \<lparr>pol_rule := \<lparr> rule_format = EXPRESSION, rule_expression = ''true'',
                            rule_explanation = None \<rparr>\<rparr>,
            fixturePolicy ''p2'' BLOCK EXPRESSION ''2023-01-01T00:00:00.000Z'',
            fixturePolicy ''p3'' ESCALATE_mode EXPRESSION ''2023-01-01T00:00:00.000Z'']"
          fixtureContext]
  by (simp add: evaluatePolicy_def registry_evaluate_def fixtureRegistry_def
        isPolicyActive_def fixturePolicy_def fixtureContext_def fixtureGetTime_def num_lt_def)

text \<open>C4 (fail-safe on evaluator errors): for a policy that is active at the time of the
  context, when the dispatch of its rule throws (the evaluator throws, or no evaluator is
  registered for the format), \<open>evaluatePolicy\<close> returns a result all the same: not passed,
  enforcement BLOCK whatever the enforcement of the policy, the message of the error in
  \<open>error\<close> and in the explanation, and a POLICY_ERROR annotation.\<close>

theorem evaluator_error_blocks:
  assumes "isPolicyActive getTime policy (ctx_timestamp context)"
    and "registry_evaluate registry (rule_format (pol_rule policy))
           (rule_expression (pol_rule policy)) context = Inl message"
  shows "evaluatePolicy getTime registry policy context =
           \<lparr> passed = False, enforcement = BLOCK,
             explanation = ''Error evaluating policy: '' @ message,
             annotations = [''POLICY_ERROR:'' @ pol_name policy],
             error = Some message \<rparr>"
  using assms by (simp add: evaluatePolicy_def)


text \<open>At the fixture: an ANNOTATE policy whose JavaScript rule throws.\<close>

theorem evaluator_error_blocks_witness:
  "evaluatePolicy fixtureGetTime fixtureRegistry
     (fixturePolicy ''p4'' ANNOTATE_mode JAVASCRIPT ''2023-01-01T00:00:00.000Z'') fixtureContext
     = \<lparr> passed = False, enforcement = BLOCK,
         explanation = ''Error evaluating policy: amount is not defined'',
         annotations = [''POLICY_ERROR:p4''],
         error = Some ''amount is not defined'' \<rparr>"
proof -
  have e: "registry_evaluate fixtureRegistry
             (rule_format (pol_rule (fixturePolicy ''p4'' ANNOTATE_mode JAVASCRIPT
                                       ''2023-01-01T00:00:00.000Z'')))
             (rule_expression (pol_rule (fixturePolicy ''p4'' ANNOTATE_mode JAVASCRIPT
                                           ''2023-01-01T00:00:00.000Z'')))
             fixtureContext = Inl ''amount is not defined''"
    by (simp add: registry_evaluate_def fixtureRegistry_def fixturePolicy_def)
  show ?thesis
    using evaluator_error_blocks[OF fixture_active e] by (simp add: fixturePolicy_def)
qed

text \<open>C5 (inactive policies pass vacuously): \<open>isPolicyActive\<close> is false exactly when the
  status is not ACTIVE, or the timestamp is strictly before \<open>activatesAt\<close>, or \<open>expiresAt\<close>
  is set and the timestamp is at or after it (the comparisons are those of the millisecond
  values, false when a date does not parse); and whenever it is false for the timestamp of
  the context, \<open>evaluatePolicy\<close> returns a passed result with the enforcement of the policy
  and no annotation, whatever the registry holds: the rule is not dispatched.\<close>

theorem inactive_policy_passes:
  "(\<not> isPolicyActive getTime policy (ctx_timestamp context)
      \<longleftrightarrow> (pol_status policy \<noteq> ACTIVE
           \<or> num_lt (getTime (ctx_timestamp context))
                    (getTime (activatesAt (pol_activation policy)))
           \<or> (\<exists>e. expiresAt (pol_activation policy) = Some e \<and> e \<noteq> []
                  \<and> num_ge (getTime (ctx_timestamp context)) (getTime e))))
   \<and> (\<not> isPolicyActive getTime policy (ctx_timestamp context)
      \<longrightarrow> evaluatePolicy getTime registry policy context =
            \<lparr> passed = True, enforcement = pol_enforcement policy,
              explanation = ''Policy not active at evaluation time'',
              annotations = [], error = None \<rparr>)"
  by (auto simp: isPolicyActive_def evaluatePolicy_def Let_def split: option.splits)


text \<open>At the fixture: a BLOCK policy that activates a year after the context's
  timestamp; its JavaScript rule would throw if it were dispatched.\<close>

theorem inactive_policy_passes_witness:
  "\<not> isPolicyActive fixtureGetTime
       (fixturePolicy ''p5'' BLOCK JAVASCRIPT ''2025-01-01T00:00:00.000Z'')
       (ctx_timestamp fixtureContext)
   \<and> evaluatePolicy fixtureGetTime fixtureRegistry
       (fixturePolicy ''p5'' BLOCK JAVASCRIPT ''2025-01-01T00:00:00.000Z'') fixtureContext
     = \<lparr> passed = True, enforcement = BLOCK,
         explanation = ''Policy not active at evaluation time'',
         annotations = [], error = None \<rparr>"
proof -
  have n: "\<not> isPolicyActive fixtureGetTime
              (fixturePolicy ''p5'' BLOCK JAVASCRIPT ''2025-01-01T00:00:00.000Z'')
              (ctx_timestamp fixtureContext)"
    by (simp add: isPolicyActive_def fixturePolicy_def fixtureContext_def fixtureGetTime_def
          num_lt_def)
  with inactive_policy_passes[of fixtureGetTime
         "fixturePolicy ''p5'' BLOCK JAVASCRIPT ''2025-01-01T00:00:00.000Z''"
         fixtureContext fixtureRegistry]
  show ?thesis by (simp add: fixturePolicy_def)
qed

subsection \<open>Policy conflicts\<close>

lemma default_rules:
  "cr_rules createConflictResolver =
     [\<lparr> rrule_id = ''default-overlap'', rrule_conflictTypes = [OVERLAP],
        rrule_strategy = MOST_SPECIFIC, rrule_priority = 100, rrule_resolver = None \<rparr>,
      \<lparr> rrule_id = ''default-contradiction'', rrule_conflictTypes = [CONTRADICTION],
        rrule_strategy = MOST_RESTRICTIVE, rrule_priority = 100, rrule_resolver = None \<rparr>,
      \<lparr> rrule_id = ''default-circular'', rrule_conflictTypes = [CIRCULAR],
        rrule_strategy = ESCALATE_strategy, rrule_priority = 100, rrule_resolver = None \<rparr>,
      \<lparr> rrule_id = ''default-ambiguous'', rrule_conflictTypes = [AMBIGUOUS_PRIORITY],
        rrule_strategy = NEWEST, rrule_priority = 50, rrule_resolver = None \<rparr>]"
  by (simp add: createConflictResolver_def registerDefaultRules_def registerRule_def)

lemma star_matches: "scopeMatches ''financial:*'' ''financial:transfer''"
  by (simp add: scopeMatches_def)

lemma transfer_not_matches: "\<not> scopeMatches ''financial:transfer'' ''financial:*''"
  by (simp add: scopeMatches_def)

lemma overlap_12:
  assumes "scope_pattern (pol_scope p1) = Some ''financial:*''"
    and "scope_pattern (pol_scope p2) = Some ''financial:transfer''"
  shows "findOverlappingScope p1 p2
           = Some (if scope_type (pol_scope p1) = GLOBAL \<or> scope_type (pol_scope p2) = GLOBAL
                   then ''*'' else ''financial:transfer'')"
    and "findOverlappingScope p2 p1
           = Some (if scope_type (pol_scope p1) = GLOBAL \<or> scope_type (pol_scope p2) = GLOBAL
                   then ''*'' else ''financial:transfer'')"
  using assms star_matches transfer_not_matches
  by (auto simp: findOverlappingScope_def)

lemma registered_two:
  assumes "pol_id p1 \<noteq> pol_id p2"
  shows "cr_policies (registerPolicy p2 (registerPolicy p1 createConflictResolver))
           = [(pol_id p1, p1), (pol_id p2, p2)]"
    and "cr_rules (registerPolicy p2 (registerPolicy p1 createConflictResolver))
           = cr_rules createConflictResolver"
  using assms
  by (simp_all add: registerPolicy_def createConflictResolver_def registerDefaultRules_def
        registerRule_def)

lemma restrictive_winner:
  assumes "pol_enforcement p1 = BLOCK" and "pol_enforcement p2 = ANNOTATE_mode"
  shows "firstOf (sort_key (\<lambda>p. indexOf [BLOCK, ESCALATE_mode, ANNOTATE_mode, SHADOW]
                                  (pol_enforcement p)) [p1, p2]) = Some p1"
    and "firstOf (sort_key (\<lambda>p. indexOf [BLOCK, ESCALATE_mode, ANNOTATE_mode, SHADOW]
                                  (pol_enforcement p)) [p2, p1]) = Some p1"
  using assms by (simp_all add: firstOf_def)


lemma detect_pair_12:
  assumes "pol_enforcement p1 = BLOCK" "scope_pattern (pol_scope p1) = Some ''financial:*''"
    and "pol_enforcement p2 = ANNOTATE_mode"
        "scope_pattern (pol_scope p2) = Some ''financial:transfer''"
    and "(a, b) = (p1, p2) \<or> (a, b) = (p2, p1)"
  shows "map pc_type (detectConflicts_pair cca now None (a, b))
           = [CONTRADICTION, OVERLAP]
             @ (if metadataPriority p1 = metadataPriority p2 then [AMBIGUOUS_PRIORITY] else [])"
    and "map pc_policies (detectConflicts_pair cca now None (a, b))
           = replicate (length (detectConflicts_pair cca now None (a, b))) [a, b]"
  using assms overlap_12[OF assms(2) assms(4)]
  by (auto simp: detectConflicts_pair_def isContradiction_def isOverlapConflict_def
        hasAmbiguousPriority_def createConflict_def Let_def)

lemma resolve_contradiction:
  assumes "cr_rules r = cr_rules createConflictResolver" and "pc_type c = CONTRADICTION"
  shows "resolve r c = resolveByRestrictiveness c"
  using assms by (simp add: resolve_def default_rules applyRule_def)

text \<open>C7 (scenario of the financial policies): with exactly P1 (BLOCK, scope
  pattern \<open>financial:*\<close>) and P2 (ANNOTATE, scope pattern \<open>financial:transfer\<close>) registered,
  in either order, on a resolver with the default rules, exactly one of the conflicts that
  \<open>detectConflicts()\<close> returns is a CONTRADICTION; it is between P1 and P2, and \<open>resolve\<close>
  on it returns a resolved result with strategy MOST_RESTRICTIVE and winning policy P1.
  The CONTRADICTION comes first in the returned list; since the enforcements differ, an
  OVERLAP conflict follows it, and an AMBIGUOUS_PRIORITY conflict after that when
  \<open>metadataPriority\<close> is the same for both policies.\<close>

theorem financial_scenario:
  assumes "pol_enforcement p1 = BLOCK" "scope_pattern (pol_scope p1) = Some ''financial:*''"
    and "pol_enforcement p2 = ANNOTATE_mode"
        "scope_pattern (pol_scope p2) = Some ''financial:transfer''"
    and "pol_id p1 \<noteq> pol_id p2"
    and "r = registerPolicy p2 (registerPolicy p1 createConflictResolver)
         \<or> r = registerPolicy p1 (registerPolicy p2 createConflictResolver)"
    and "detectConflicts cca now None r = (cs, r')"
  shows "map pc_type cs
           = [CONTRADICTION, OVERLAP]
             @ (if metadataPriority p1 = metadataPriority p2 then [AMBIGUOUS_PRIORITY] else [])
       \<and> (\<exists>c. filter (\<lambda>x. pc_type x = CONTRADICTION) cs = [c]
              \<and> set (pc_policies c) = {p1, p2}
              \<and> resolve r' c =
                  \<lparr> rr_resolved = True, rr_strategy = MOST_RESTRICTIVE,
                    rr_winningPolicy = Some p1,
                    rr_explanation = ''Policy '' @ quoted (pol_name p1)
                                       @ '' wins as the most restrictive'',
                    rr_recommendation = None, rr_needsEscalation = False \<rparr>)"
proof -
  obtain a b where ab: "(a, b) = (p1, p2) \<or> (a, b) = (p2, p1)"
    and pol: "cr_policies r = [(pol_id a, a), (pol_id b, b)]"
    and rules: "cr_rules r = cr_rules createConflictResolver"
    using assms(5,6) registered_two[of p1 p2] registered_two[of p2 p1] by auto
  have cs: "cs = detectConflicts_pair cca now None (a, b)"
    and rules': "cr_rules r' = cr_rules createConflictResolver"
    using assms(7) pol rules by (auto simp: detectConflicts_def Let_def)
  note t = detect_pair_12[OF assms(1-4) ab, of cca now, folded cs]
  from t(1) obtain c rest where c: "cs = c # rest" "pc_type c = CONTRADICTION"
    "CONTRADICTION \<notin> set (map pc_type rest)"
    by (cases cs) (auto split: if_splits)
  then have f: "filter (\<lambda>x. pc_type x = CONTRADICTION) cs = [c]"
    by (force simp: filter_empty_conv)
  from t(2) c(1) have p: "pc_policies c = [a, b]" by simp
  have w: "firstOf (sort_key (\<lambda>p. indexOf [BLOCK, ESCALATE_mode, ANNOTATE_mode, SHADOW]
                                  (pol_enforcement p)) [a, b]) = Some p1"
  proof -
    from ab have "(a = p1 \<and> b = p2) \<or> (a = p2 \<and> b = p1)" by simp
    then show ?thesis
      using restrictive_winner[OF assms(1) assms(3)]
      by (elim disjE conjE) (simp_all only:)
  qed
  have "resolve r' c = \<lparr> rr_resolved = True, rr_strategy = MOST_RESTRICTIVE,
                    rr_winningPolicy = Some p1,
                    rr_explanation = ''Policy '' @ quoted (pol_name p1)
                                       @ '' wins as the most restrictive'',
                    rr_recommendation = None, rr_needsEscalation = False \<rparr>"
    unfolding resolve_contradiction[OF rules' c(2)] resolveByRestrictiveness_def Let_def p w
    by simp
  moreover have "set (pc_policies c) = {p1, p2}" using p ab by auto
  ultimately show ?thesis using t(1) f by blast
qed

lemma financialResolver_detect:
  "map pc_type (fst (detectConflicts fixtureConflictAddress ''T'' None financialResolver))
     = [CONTRADICTION, OVERLAP, AMBIGUOUS_PRIORITY]"
  by (simp add: financialResolver_def detectConflicts_def registerPolicy_def
        createConflictResolver_def registerDefaultRules_def registerRule_def scopedPolicy_def
        fixturePolicy_def detectConflicts_pair_def findOverlappingScope_def scopeMatches_def
        isContradiction_def isOverlapConflict_def hasAmbiguousPriority_def metadataPriority_def
        createConflict_def Let_def)

text \<open>The list returned at the fixture has three elements, one of each type.\<close>

lemma financialResolver_three_conflicts:
  "length (fst (detectConflicts fixtureConflictAddress ''T'' None financialResolver)) = 3
   \<and> map pc_type (fst (detectConflicts fixtureConflictAddress ''T'' None financialResolver))
       = [CONTRADICTION, OVERLAP, AMBIGUOUS_PRIORITY]"
  using financialResolver_detect length_map[of pc_type
      "fst (detectConflicts fixtureConflictAddress ''T'' None financialResolver)"]
  by simp

text \<open>At the fixture: the types of the returned conflicts, and the resolution of the one
  CONTRADICTION among them.\<close>

theorem financial_scenario_witness:
  "map pc_type (fst (detectConflicts fixtureConflictAddress ''T'' None financialResolver))
     = [CONTRADICTION, OVERLAP, AMBIGUOUS_PRIORITY]
   \<and> map (\<lambda>c. (rr_strategy (resolve (snd (detectConflicts fixtureConflictAddress ''T'' None
                                             financialResolver)) c),
               map_option pol_name
                 (rr_winningPolicy (resolve (snd (detectConflicts fixtureConflictAddress ''T''
                                                    None financialResolver)) c))))
        (filter (\<lambda>x. pc_type x = CONTRADICTION)
           (fst (detectConflicts fixtureConflictAddress ''T'' None financialResolver)))
     = [(MOST_RESTRICTIVE, Some ''P1'')]"
proof -
  let ?p1 = "scopedPolicy ''P1'' BLOCK ''financial:*''"
  let ?p2 = "scopedPolicy ''P2'' ANNOTATE_mode ''financial:transfer''"
  have h: "pol_enforcement ?p1 = BLOCK" "scope_pattern (pol_scope ?p1) = Some ''financial:*''"
    "pol_enforcement ?p2 = ANNOTATE_mode"
    "scope_pattern (pol_scope ?p2) = Some ''financial:transfer''"
    "pol_id ?p1 \<noteq> pol_id ?p2"
    by (simp_all add: scopedPolicy_def fixturePolicy_def)
  have r: "financialResolver = registerPolicy ?p2 (registerPolicy ?p1 createConflictResolver)
           \<or> financialResolver = registerPolicy ?p1 (registerPolicy ?p2 createConflictResolver)"
    by (simp add: financialResolver_def)
  have d: "detectConflicts fixtureConflictAddress ''T'' None financialResolver
             = (fst (detectConflicts fixtureConflictAddress ''T'' None financialResolver),
                snd (detectConflicts fixtureConflictAddress ''T'' None financialResolver))"
    by simp
  have m: "metadataPriority ?p1 = metadataPriority ?p2"
    by (simp add: metadataPriority_def scopedPolicy_def fixturePolicy_def)
  have n: "pol_name ?p1 = ''P1''" by (simp add: scopedPolicy_def fixturePolicy_def)
  from financial_scenario[OF h r d] m n show ?thesis by auto
qed

subsection \<open>Approval queue\<close>

lemma queuePending_r1:
  "requests queuePending ''sha256:r1'' =
     Some \<lparr> ar_id = ''sha256:r1'', ar_decisionId = ''sha256:d1'', ar_status = PENDING,
            ar_priority = NORMAL, ar_requestedBy = ''sha256:system'',
            ar_reason = ''Escalation: POLICY_ESCALATE'', ar_triggeringPolicyId = None,
            ar_approvers = [''sha256:supervisor''], ar_createdAt = ''T0'',
            ar_expiresAt = ''T9'', ar_context = cri_context fixtureRequestInput,
            ar_outcome = None \<rparr>"
  by (simp add: queuePending_def createRequest_def fixtureRequestInput_def
        createApprovalQueue_def Let_def)

lemma queueApproved_r1:
  "requests queueApproved ''sha256:r1'' =
     Some \<lparr> ar_id = ''sha256:r1'', ar_decisionId = ''sha256:d1'', ar_status = APPROVED,
            ar_priority = NORMAL, ar_requestedBy = ''sha256:system'',
            ar_reason = ''Escalation: POLICY_ESCALATE'', ar_triggeringPolicyId = None,
            ar_approvers = [''sha256:supervisor''], ar_createdAt = ''T0'',
            ar_expiresAt = ''T9'', ar_context = cri_context fixtureRequestInput,
            ar_outcome = Some \<lparr> ao_decision = approved, ao_decidedBy = ''sha256:supervisor'',
                                  ao_decidedAt = ''T1'', ao_justification = None,
                                  ao_conditions = None, ao_automated = False \<rparr> \<rparr>"
  by (simp add: queueApproved_def recordDecision_def queuePending_r1 Let_def)


text \<open>C8 (unauthorized approval calls): on a stored request, \<open>startReview\<close>
  and \<open>recordDecision\<close> by an actor who is not among the approvers fail, and \<open>withdraw\<close> by
  an actor who is not \<open>requestedBy\<close> fails; every one of these failures leaves the queue
  exactly as it was. The status of the request is checked first: the failure is the
  authorization error when the status admits the operation (PENDING for \<open>startReview\<close>,
  PENDING or IN_REVIEW for \<open>recordDecision\<close> and \<open>withdraw\<close>) and the status error of the
  operation otherwise.\<close>

theorem unauthorized_actor_fails:
  assumes "requests q requestId = Some request"
  shows "(actor \<notin> set (ar_approvers request) \<longrightarrow>
            startReview requestId actor q
              = (Inl (if ar_status request \<noteq> PENDING
                      then RequestNotPending requestId (ar_status request)
                      else NotAuthorizedToReview actor), q)
          \<and> recordDecision now requestId decision actor options q
              = (Inl (if ar_status request \<noteq> PENDING \<and> ar_status request \<noteq> IN_REVIEW
                      then RequestCannotBeDecided requestId (ar_status request)
                      else NotAuthorizedToDecide actor), q))
       \<and> (actor \<noteq> ar_requestedBy request \<longrightarrow>
            withdraw requestId actor q
              = (Inl (if ar_status request \<noteq> PENDING \<and> ar_status request \<noteq> IN_REVIEW
                      then RequestCannotBeWithdrawn requestId (ar_status request)
                      else OnlyRequesterCanWithdraw), q))"
  using assms by (auto simp: startReview_def recordDecision_def withdraw_def)


text \<open>On a request that is already decided, the calls of an actor outside the approvers
  fail with the status errors, which are not authorization errors.\<close>

theorem decided_request_counterexample:
  "map_option ar_approvers (requests queueApproved ''sha256:r1'') = Some [''sha256:supervisor'']
   \<and> startReview ''sha256:r1'' ''sha256:stranger'' queueApproved
       = (Inl (RequestNotPending ''sha256:r1'' APPROVED), queueApproved)
   \<and> \<not> isAuthorizationError (RequestNotPending ''sha256:r1'' APPROVED)
   \<and> recordDecision ''T2'' ''sha256:r1'' rejected ''sha256:stranger'' None queueApproved
       = (Inl (RequestCannotBeDecided ''sha256:r1'' APPROVED), queueApproved)
   \<and> \<not> isAuthorizationError (RequestCannotBeDecided ''sha256:r1'' APPROVED)"
  by (simp add: startReview_def recordDecision_def queueApproved_r1)

text \<open>At the fixture: a stranger on the pending request.\<close>

theorem unauthorized_actor_fails_witness:
  "startReview ''sha256:r1'' ''sha256:stranger'' queuePending
     = (Inl (NotAuthorizedToReview ''sha256:stranger''), queuePending)
   \<and> recordDecision ''T1'' ''sha256:r1'' approved ''sha256:stranger'' None queuePending
     = (Inl (NotAuthorizedToDecide ''sha256:stranger''), queuePending)
   \<and> withdraw ''sha256:r1'' ''sha256:stranger'' queuePending
     = (Inl OnlyRequesterCanWithdraw, queuePending)"
  using unauthorized_actor_fails[OF queuePending_r1, of "''sha256:stranger''" "''T1''"
          approved None]
  by simp

end
